theory Spec2Isabelle
  imports
    Complex_Main
    "HOL-Library.AList"
    "HOL-Library.Char_ord"
    "HOL-Library.List_Lexorder"
begin

section \<open>Numbers\<close>

text \<open>
  Python's unbounded integers are \<open>int\<close>. The generator is modelled twice: first
  with its floats as reals and its arithmetic exact, then with every float operation
  rounded (the section on the generator in floating-point arithmetic). The predictors and
  trainers compute on floats only inside the library calls they make.
\<close>

definition py_int :: "real \<Rightarrow> int" where
  \<comment> \<open>\<open>int(x)\<close> on a float: truncation toward zero.\<close>
  "py_int x = (if 0 \<le> x then \<lfloor>x\<rfloor> else \<lceil>x\<rceil>)"

definition round_half_even :: "real \<Rightarrow> int" where
  \<comment> \<open>Nearest integer, a tie going to the even neighbour.\<close>
  "round_half_even y =
     (let f = \<lfloor>y\<rfloor>; d = y - of_int f
      in if d < 1 / 2 then f
         else if 1 / 2 < d then f + 1
         else if even f then f else f + 1)"

definition py_round :: "real \<Rightarrow> nat \<Rightarrow> real" where
  \<comment> \<open>\<open>round(x, ndigits)\<close> for \<open>ndigits \<ge> 0\<close>.\<close>
  "py_round x ndigits = of_int (round_half_even (x * 10 ^ ndigits)) / 10 ^ ndigits"

section \<open>The pseudo-random source\<close>

text \<open>
  \<open>numpy.random\<close> is a library outside the repository. Its process-wide generator
  state is the type \<open>'g\<close>, threaded explicitly through every call; the library calls
  the scripts make are the fields of a record that the model takes as a parameter.
  \<open>np.random.seed(s)\<close> replaces the state by one that depends on \<open>s\<close> alone.
  \<open>np.random.choice(xs)\<close> picks an index below \<open>len(xs)\<close> and returns that element.
\<close>

record 'g random_source =
  np_seed :: "int \<Rightarrow> 'g"
  np_uniform :: "real \<Rightarrow> real \<Rightarrow> 'g \<Rightarrow> real \<times> 'g"
  np_normal :: "real \<Rightarrow> real \<Rightarrow> 'g \<Rightarrow> real \<times> 'g"
  np_beta :: "real \<Rightarrow> real \<Rightarrow> 'g \<Rightarrow> real \<times> 'g"
  np_choice_index :: "nat \<Rightarrow> 'g \<Rightarrow> nat \<times> 'g"

definition np_choice :: "'g random_source \<Rightarrow> 'a list \<Rightarrow> 'g \<Rightarrow> 'a \<times> 'g" where
  "np_choice R xs g = (let (i, g') = np_choice_index R (length xs) g in (xs ! i, g'))"


definition choice_contract :: "'g random_source \<Rightarrow> bool" where
  \<comment> \<open>The index drawn for a non-empty list is a position of the list.\<close>
  "choice_contract R = (\<forall>n g. 0 < n \<longrightarrow> fst (np_choice_index R n g) < n)"

text \<open>
  A concrete source for evaluating the scripts: it replays a recorded tape of variates,
  one per call (a unit variate for \<open>uniform\<close>, \<open>beta\<close> and \<open>choice\<close>, a standard
  normal one for \<open>normal\<close>), and reads 0 once the tape is used up. Seeding rewinds
  to the tape recorded for that seed.
\<close>

definition replay_next :: "real list \<Rightarrow> real \<times> real list" where
  "replay_next g = (case g of [] \<Rightarrow> (0, []) | x # xs \<Rightarrow> (x, xs))"

definition replay_source :: "real list \<Rightarrow> (real list) random_source" where
  "replay_source tape =
     \<lparr> np_seed = (\<lambda>s. tape),
       np_uniform = (\<lambda>lo hi g. let (x, g') = replay_next g in (lo + (hi - lo) * frac x, g')),
       np_normal = (\<lambda>mu sigma g. let (x, g') = replay_next g in (mu + sigma * x, g')),
       np_beta = (\<lambda>a b g. let (x, g') = replay_next g in (frac x, g')),
       np_choice_index = (\<lambda>n g. let (x, g') = replay_next g in (nat \<lfloor>frac x * real n\<rfloor>, g')) \<rparr>"

section \<open>batteryHealth.py: the synthetic battery record generator\<close>

record battery_row =
  model :: string
  age_years :: real
  mileage :: int
  battery_cycles :: int
  fast_charge_ratio :: real
  avg_temperature_c :: real
  avg_depth_of_discharge :: real
  voltage :: real
  internal_resistance_mohm :: real
  charging_efficiency :: real
  battery_capacity_kwh :: int
  battery_health_percent :: real

definition ev_models :: "string list" where
  "ev_models =
     [''Tesla Model 3'', ''Nissan Leaf'', ''Chevrolet Bolt'', ''BMW i3'',
      ''Hyundai Kona Electric'', ''Volkswagen ID.4'', ''Ford Mustang Mach-E'',
      ''Audi e-tron'', ''Rivian R1T'', ''BYD Atto 3'', ''MG ZS EV'']"

fun str_contains :: "string \<Rightarrow> string \<Rightarrow> bool" where
  \<comment> \<open>\<open>sub in s\<close>: \<open>sub\<close> occurs in \<open>s\<close> as a contiguous run of characters.\<close>
  "str_contains sub [] = (sub = [])"
| "str_contains sub (c # cs) = (take (length sub) (c # cs) = sub \<or> str_contains sub cs)"

definition degradation :: "real \<Rightarrow> int \<Rightarrow> real \<Rightarrow> real \<Rightarrow> real \<Rightarrow> real \<Rightarrow> real \<Rightarrow> real \<Rightarrow> real" where
  \<comment> \<open>Lines 73 to 101 of the loop body: the health value before it is clamped. The block
      draws twice, \<open>calendar_rate\<close> from \<open>uniform(2, 3)\<close> (line 76) and \<open>noise\<close> from
      \<open>normal(0, 2)\<close> (line 101), with no other draw in between; both arrive here as
      arguments.\<close>
  "degradation =
     (\<lambda>age_years battery_cycles fast_charge_ratio avg_temperature_c
        avg_depth_of_discharge mileage calendar_rate noise.
      let battery_health = 100;
          calendar_degradation = age_years * calendar_rate;
          battery_health = battery_health - calendar_degradation;
          cycle_factor = (if avg_depth_of_discharge < 0.5 then 0.01 else 0.015);
          cycle_degradation = of_int battery_cycles * cycle_factor * avg_depth_of_discharge;
          battery_health = battery_health - cycle_degradation;
          fast_charge_degradation = fast_charge_ratio * of_int battery_cycles * 0.005;
          battery_health = battery_health - fast_charge_degradation;
          battery_health =
            (if avg_temperature_c > 35
             then battery_health - (avg_temperature_c - 35) * age_years * 0.3
             else if avg_temperature_c < 10
             then battery_health - (10 - avg_temperature_c) * age_years * 0.15
             else battery_health);
          battery_health =
            (if mileage > 100000
             then battery_health - (mileage - 100000) / 10000 * 0.5
             else battery_health);
          battery_health = battery_health + noise
      in battery_health)"

definition data_row ::
    "string \<Rightarrow> real \<Rightarrow> real \<Rightarrow> int \<Rightarrow> real \<Rightarrow> real \<Rightarrow> real \<Rightarrow> real \<Rightarrow> real \<Rightarrow> real \<Rightarrow> int \<Rightarrow> real
       \<Rightarrow> battery_row" where
  \<comment> \<open>The dictionary appended to \<open>data\<close> (lines 106 to 119), from the loop's local
      variables: this is where the stored values are rounded and truncated.\<close>
  "data_row =
     (\<lambda>model age_years mileage battery_cycles fast_charge_ratio avg_temperature_c
        avg_depth_of_discharge voltage internal_resistance_mohm charging_efficiency
        battery_capacity_kwh battery_health.
      \<lparr> model = model,
        age_years = py_round age_years 2,
        mileage = py_int mileage,
        battery_cycles = battery_cycles,
        fast_charge_ratio = py_round fast_charge_ratio 3,
        avg_temperature_c = py_round avg_temperature_c 1,
        avg_depth_of_discharge = py_round avg_depth_of_discharge 3,
        voltage = py_round voltage 2,
        internal_resistance_mohm = py_round internal_resistance_mohm 2,
        charging_efficiency = py_round charging_efficiency 3,
        battery_capacity_kwh = battery_capacity_kwh,
        battery_health_percent = py_round battery_health 2 \<rparr>)"

definition loop_body :: "'g random_source \<Rightarrow> 'g \<Rightarrow> battery_row \<times> 'g" where
  \<comment> \<open>One iteration of the \<open>for\<close> loop (lines 28 to 119), draws in source order.
      \<open>age_months\<close> (line 30) is never read and is left out.\<close>
  "loop_body R g0 =
     (let (age_years, g1) = np_uniform R 0.1 10 g0;
          (annual_mileage, g2) = np_uniform R 8000 25000 g1;
          (mileage_noise, g3) = np_normal R 0 2000 g2;
          mileage = age_years * annual_mileage + mileage_noise;
          (cycles_noise, g4) = np_normal R 0 50 g3;
          battery_cycles = py_int (mileage / 300 + cycles_noise);
          (fast_charge_ratio, g5) =
            (if age_years < 3 then np_beta R 2 5 g4 else np_beta R 1.5 4 g4);
          (avg_temperature_c, g6) = np_uniform R 15 40 g5;
          (avg_depth_of_discharge, g7) = np_uniform R 0.3 0.9 g6;
          (voltage_noise, g8) = np_normal R 0 5 g7;
          voltage = 400 - age_years * 1.5 + voltage_noise;
          base_resistance = 2.0 + age_years * 0.8;
          (resistance_noise, g9) = np_uniform R 0 1 g8;
          internal_resistance_mohm = base_resistance + resistance_noise;
          (efficiency_noise, g10) = np_uniform R (- 0.02) 0.01 g9;
          charging_efficiency = 0.95 - age_years * 0.008 + efficiency_noise;
          charging_efficiency = max 0.80 (min 0.98 charging_efficiency);
          (model, g11) = np_choice R ev_models g10;
          (battery_capacity_kwh, g12) =
            (if str_contains ''Tesla'' model then np_choice R [50, 75, 100] g11
             else if str_contains ''Nissan Leaf'' model then np_choice R [40, 62] g11
             else if str_contains ''Rivian'' model then np_choice R [135, 180] g11
             else np_choice R [50, 60, 75, 82] g11);
          (calendar_rate, g13) = np_uniform R 2 3 g12;
          (noise, g14) = np_normal R 0 2 g13;
          battery_health =
            degradation age_years battery_cycles fast_charge_ratio avg_temperature_c
              avg_depth_of_discharge mileage calendar_rate noise;
          battery_health = max 40 (min 100 battery_health)
      in (data_row model age_years mileage battery_cycles fast_charge_ratio
            avg_temperature_c avg_depth_of_discharge voltage internal_resistance_mohm
            charging_efficiency battery_capacity_kwh battery_health, g14))"

primrec gen_loop :: "'g random_source \<Rightarrow> nat \<Rightarrow> battery_row list \<Rightarrow> 'g \<Rightarrow> battery_row list \<times> 'g" where
  \<comment> \<open>\<open>for _ in range(n_samples)\<close>, appending one row to \<open>data\<close> per iteration.\<close>
  "gen_loop R 0 data g = (data, g)"
| "gen_loop R (Suc k) data g =
     (let (row, g') = loop_body R g in gen_loop R k (data @ [row]) g')"

definition generate_realistic_battery_data ::
    "'g random_source \<Rightarrow> int \<Rightarrow> 'g \<Rightarrow> battery_row list \<times> 'g" where
  \<comment> \<open>Takes the generator state at the call and returns the rows of the table with the
      state the call leaves behind. \<open>range(n)\<close> is empty for \<open>n \<le> 0\<close>.\<close>
  "generate_realistic_battery_data R n_samples g =
     (let g0 = np_seed R 42;
          data = []
      in gen_loop R (nat n_samples) data g0)"

text \<open>
  The degradation formula in the words of the specification (step 11): 100 minus the
  calendar, cycle, fast-charge, thermal and high-mileage terms, plus the noise.
\<close>

definition health_formula ::
    "real \<Rightarrow> int \<Rightarrow> real \<Rightarrow> real \<Rightarrow> real \<Rightarrow> real \<Rightarrow> real \<Rightarrow> real \<Rightarrow> real" where
  "health_formula age cycles fcr temp dod mil u z =
     100 - age * u
         - of_int cycles * (if dod < 0.5 then 0.01 else 0.015) * dod
         - fcr * of_int cycles * 0.005
         - (if temp > 35 then (temp - 35) * age * 0.3
            else if temp < 10 then (10 - temp) * age * 0.15 else 0)
         - (if mil > 100000 then (mil - 100000) / 10000 * 0.5 else 0)
         + z"

text \<open>
  The capacity lookup in the words of the specification (step 10): the candidate set of
  a model name, by substring match in the order Tesla, Nissan Leaf, Rivian, default.
\<close>

definition capacity_candidates :: "string \<Rightarrow> int list" where
  "capacity_candidates m =
     (if str_contains ''Tesla'' m then [50, 75, 100]
      else if str_contains ''Nissan Leaf'' m then [40, 62]
      else if str_contains ''Rivian'' m then [135, 180]
      else [50, 60, 75, 82])"

text \<open>
  A recorded tape of the fourteen variates of one row, every unit variate at the middle
  of its range and every normal variate at its mean, and the row it generates.
\<close>

definition sample_tape :: "real list" where
  "sample_tape = [1/2, 1/2, 0, 0, 1/4, 1/2, 1/2, 0, 1/2, 1/2, 0, 0, 1/2, 0]"

definition sample_row :: battery_row where
  "sample_row =
     \<lparr> model = ''Tesla Model 3'', age_years = 5.05, mileage = 83325,
       battery_cycles = 277, fast_charge_ratio = 0.25, avg_temperature_c = 27.5,
       avg_depth_of_discharge = 0.6, voltage = 392.42, internal_resistance_mohm = 6.54,
       charging_efficiency = 0.905, battery_capacity_kwh = 50,
       battery_health_percent = 84.54 \<rparr>"

section \<open>The generator in floating-point arithmetic\<close>

text \<open>
  The generator once more, with the arithmetic of Python's floats. An arithmetic
  operation on floats is the exact operation followed by the rounding of its result to
  the nearest float, and a decimal literal is the rounding of the number it writes; the
  rounding \<open>rnd\<close> is a parameter, so that what is proved holds for binary64 and for
  any other rounding. Comparisons, \<open>max\<close>, \<open>min\<close> and \<open>int()\<close> do not round, and
  an integer converts to a float unchanged. \<open>round(x, ndigits)\<close> rounds the exact value
  of \<open>x\<close> to the decimal, tie to even, and returns the float nearest to that decimal.
  Overflow and NaN are left out. With the identity for \<open>rnd\<close> these definitions are
  the ones above, in exact arithmetic.
\<close>

definition py_round_fl :: "(real \<Rightarrow> real) \<Rightarrow> real \<Rightarrow> nat \<Rightarrow> real" where
  "py_round_fl rnd x ndigits =
     rnd (of_int (round_half_even (x * 10 ^ ndigits)) / 10 ^ ndigits)"

definition degradation_fl ::
    "(real \<Rightarrow> real) \<Rightarrow> real \<Rightarrow> int \<Rightarrow> real \<Rightarrow> real \<Rightarrow> real \<Rightarrow> real \<Rightarrow> real \<Rightarrow> real \<Rightarrow> real" where
  \<comment> \<open>Lines 73 to 101, operation by operation in the source's order and grouping.\<close>
  "degradation_fl =
     (\<lambda>rnd age_years battery_cycles fast_charge_ratio avg_temperature_c
        avg_depth_of_discharge mileage calendar_rate noise.
      let battery_health = 100;
          calendar_degradation = rnd (age_years * calendar_rate);
          battery_health = rnd (battery_health - calendar_degradation);
          cycle_factor = (if avg_depth_of_discharge < rnd 0.5 then rnd 0.01 else rnd 0.015);
          cycle_degradation =
            rnd (rnd (of_int battery_cycles * cycle_factor) * avg_depth_of_discharge);
          battery_health = rnd (battery_health - cycle_degradation);
          fast_charge_degradation =
            rnd (rnd (fast_charge_ratio * of_int battery_cycles) * rnd 0.005);
          battery_health = rnd (battery_health - fast_charge_degradation);
          battery_health =
            (if avg_temperature_c > 35
             then rnd (battery_health
                         - rnd (rnd (rnd (avg_temperature_c - 35) * age_years) * rnd 0.3))
             else if avg_temperature_c < 10
             then rnd (battery_health
                         - rnd (rnd (rnd (10 - avg_temperature_c) * age_years) * rnd 0.15))
             else battery_health);
          battery_health =
            (if mileage > 100000
             then rnd (battery_health - rnd (rnd (rnd (mileage - 100000) / 10000) * rnd 0.5))
             else battery_health);
          battery_health = rnd (battery_health + noise)
      in battery_health)"

definition data_row_fl ::
    "(real \<Rightarrow> real) \<Rightarrow> string \<Rightarrow> real \<Rightarrow> real \<Rightarrow> int \<Rightarrow> real \<Rightarrow> real \<Rightarrow> real \<Rightarrow> real \<Rightarrow> real \<Rightarrow> real
       \<Rightarrow> int \<Rightarrow> real \<Rightarrow> battery_row" where
  "data_row_fl =
     (\<lambda>rnd model age_years mileage battery_cycles fast_charge_ratio avg_temperature_c
        avg_depth_of_discharge voltage internal_resistance_mohm charging_efficiency
        battery_capacity_kwh battery_health.
      \<lparr> model = model,
        age_years = py_round_fl rnd age_years 2,
        mileage = py_int mileage,
        battery_cycles = battery_cycles,
        fast_charge_ratio = py_round_fl rnd fast_charge_ratio 3,
        avg_temperature_c = py_round_fl rnd avg_temperature_c 1,
        avg_depth_of_discharge = py_round_fl rnd avg_depth_of_discharge 3,
        voltage = py_round_fl rnd voltage 2,
        internal_resistance_mohm = py_round_fl rnd internal_resistance_mohm 2,
        charging_efficiency = py_round_fl rnd charging_efficiency 3,
        battery_capacity_kwh = battery_capacity_kwh,
        battery_health_percent = py_round_fl rnd battery_health 2 \<rparr>)"

definition loop_body_fl :: "(real \<Rightarrow> real) \<Rightarrow> 'g random_source \<Rightarrow> 'g \<Rightarrow> battery_row \<times> 'g" where
  \<comment> \<open>One iteration of the \<open>for\<close> loop (lines 28 to 119), draws in source order.\<close>
  "loop_body_fl rnd R g0 =
     (let (age_years, g1) = np_uniform R (rnd 0.1) 10 g0;
          (annual_mileage, g2) = np_uniform R 8000 25000 g1;
          (mileage_noise, g3) = np_normal R 0 2000 g2;
          mileage = rnd (rnd (age_years * annual_mileage) + mileage_noise);
          (cycles_noise, g4) = np_normal R 0 50 g3;
          battery_cycles = py_int (rnd (rnd (mileage / 300) + cycles_noise));
          (fast_charge_ratio, g5) =
            (if age_years < 3 then np_beta R 2 5 g4 else np_beta R (rnd 1.5) 4 g4);
          (avg_temperature_c, g6) = np_uniform R 15 40 g5;
          (avg_depth_of_discharge, g7) = np_uniform R (rnd 0.3) (rnd 0.9) g6;
          (voltage_noise, g8) = np_normal R 0 5 g7;
          voltage = rnd (rnd (400 - rnd (age_years * rnd 1.5)) + voltage_noise);
          base_resistance = rnd (rnd 2.0 + rnd (age_years * rnd 0.8));
          (resistance_noise, g9) = np_uniform R 0 1 g8;
          internal_resistance_mohm = rnd (base_resistance + resistance_noise);
          (efficiency_noise, g10) = np_uniform R (- rnd 0.02) (rnd 0.01) g9;
          charging_efficiency =
            rnd (rnd (rnd 0.95 - rnd (age_years * rnd 0.008)) + efficiency_noise);
          charging_efficiency = max (rnd 0.80) (min (rnd 0.98) charging_efficiency);
          (model, g11) = np_choice R ev_models g10;
          (battery_capacity_kwh, g12) =
            (if str_contains ''Tesla'' model then np_choice R [50, 75, 100] g11
             else if str_contains ''Nissan Leaf'' model then np_choice R [40, 62] g11
             else if str_contains ''Rivian'' model then np_choice R [135, 180] g11
             else np_choice R [50, 60, 75, 82] g11);
          (calendar_rate, g13) = np_uniform R 2 3 g12;
          (noise, g14) = np_normal R 0 2 g13;
          battery_health =
            degradation_fl rnd age_years battery_cycles fast_charge_ratio avg_temperature_c
              avg_depth_of_discharge mileage calendar_rate noise;
          battery_health = max 40 (min 100 battery_health)
      in (data_row_fl rnd model age_years mileage battery_cycles fast_charge_ratio
            avg_temperature_c avg_depth_of_discharge voltage internal_resistance_mohm
            charging_efficiency battery_capacity_kwh battery_health, g14))"

primrec gen_loop_fl ::
    "(real \<Rightarrow> real) \<Rightarrow> 'g random_source \<Rightarrow> nat \<Rightarrow> battery_row list \<Rightarrow> 'g \<Rightarrow> battery_row list \<times> 'g" where
  "gen_loop_fl rnd R 0 data g = (data, g)"
| "gen_loop_fl rnd R (Suc k) data g =
     (let (row, g') = loop_body_fl rnd R g in gen_loop_fl rnd R k (data @ [row]) g')"

definition generate_realistic_battery_data_fl ::
    "(real \<Rightarrow> real) \<Rightarrow> 'g random_source \<Rightarrow> int \<Rightarrow> 'g \<Rightarrow> battery_row list \<times> 'g" where
  "generate_realistic_battery_data_fl rnd R n_samples g =
     (let g0 = np_seed R 42;
          data = []
      in gen_loop_fl rnd R (nat n_samples) data g0)"

text \<open>
  The fourteen draws of one iteration by themselves, in source order: which
  \<open>beta\<close> is drawn depends on the age drawn, and which capacity list is drawn from
  depends on the model drawn.
\<close>

record draws =
  d_age :: real
  d_annual :: real
  d_mileage_noise :: real
  d_cycles_noise :: real
  d_fast_charge :: real
  d_temperature :: real
  d_discharge :: real
  d_voltage_noise :: real
  d_resistance_noise :: real
  d_efficiency_noise :: real
  d_model :: string
  d_capacity :: int
  d_calendar_rate :: real
  d_noise :: real

definition row_draws :: "(real \<Rightarrow> real) \<Rightarrow> 'g random_source \<Rightarrow> 'g \<Rightarrow> draws \<times> 'g" where
  "row_draws rnd R g0 =
     (let (age, g1) = np_uniform R (rnd 0.1) 10 g0;
          (annual, g2) = np_uniform R 8000 25000 g1;
          (mn, g3) = np_normal R 0 2000 g2;
          (cn, g4) = np_normal R 0 50 g3;
          (fcr, g5) = (if age < 3 then np_beta R 2 5 g4 else np_beta R (rnd 1.5) 4 g4);
          (temp, g6) = np_uniform R 15 40 g5;
          (dod, g7) = np_uniform R (rnd 0.3) (rnd 0.9) g6;
          (vn, g8) = np_normal R 0 5 g7;
          (rn, g9) = np_uniform R 0 1 g8;
          (en, g10) = np_uniform R (- rnd 0.02) (rnd 0.01) g9;
          (mdl, g11) = np_choice R ev_models g10;
          (cap, g12) =
            (if str_contains ''Tesla'' mdl then np_choice R [50, 75, 100] g11
             else if str_contains ''Nissan Leaf'' mdl then np_choice R [40, 62] g11
             else if str_contains ''Rivian'' mdl then np_choice R [135, 180] g11
             else np_choice R [50, 60, 75, 82] g11);
          (u, g13) = np_uniform R 2 3 g12;
          (z, g14) = np_normal R 0 2 g13
      in (\<lparr> d_age = age, d_annual = annual, d_mileage_noise = mn, d_cycles_noise = cn,
             d_fast_charge = fcr, d_temperature = temp, d_discharge = dod,
             d_voltage_noise = vn, d_resistance_noise = rn, d_efficiency_noise = en,
             d_model = mdl, d_capacity = cap, d_calendar_rate = u, d_noise = z \<rparr>, g14))"

definition state_before_row :: "(real \<Rightarrow> real) \<Rightarrow> 'g random_source \<Rightarrow> nat \<Rightarrow> 'g" where
  \<comment> \<open>The generator state at the start of iteration \<open>i\<close>, counted from 0: the seeded
      state after the draws of the \<open>i\<close> iterations before it.\<close>
  "state_before_row rnd R i = ((\<lambda>g. snd (row_draws rnd R g)) ^^ i) (np_seed R 42)"

text \<open>
  The degradation formula of the specification (step 11) under float evaluation: start
  at 100.0, subtract the five terms in order, add the noise. A thermal or
  high-mileage term whose condition does not hold subtracts nothing.
\<close>

definition subtract_in_order :: "(real \<Rightarrow> real) \<Rightarrow> real \<Rightarrow> real option list \<Rightarrow> real" where
  "subtract_in_order rnd start terms =
     foldl (\<lambda>h t. case t of None \<Rightarrow> h | Some x \<Rightarrow> rnd (h - x)) start terms"

definition health_formula_fl ::
    "(real \<Rightarrow> real) \<Rightarrow> real \<Rightarrow> int \<Rightarrow> real \<Rightarrow> real \<Rightarrow> real \<Rightarrow> real \<Rightarrow> real \<Rightarrow> real \<Rightarrow> real" where
  "health_formula_fl rnd age cycles fcr temp dod mil u z =
     rnd (subtract_in_order rnd 100
        [Some (rnd (age * u)),
         Some (rnd (rnd (of_int cycles * (if dod < rnd 0.5 then rnd 0.01 else rnd 0.015)) * dod)),
         Some (rnd (rnd (fcr * of_int cycles) * rnd 0.005)),
         (if temp > 35 then Some (rnd (rnd (rnd (temp - 35) * age) * rnd 0.3))
          else if temp < 10 then Some (rnd (rnd (rnd (10 - temp) * age) * rnd 0.15))
          else None),
         (if mil > 100000 then Some (rnd (rnd (rnd (mil - 100000) / 10000) * rnd 0.5))
          else None)]
      + z)"

text \<open>
  Rounding to the nearest binary64 float, tie to even, for a number in the range of the
  normal floats: the binade of \<open>x\<close> is found by halving or doubling, and \<open>x\<close> is
  rounded to a multiple of the spacing of the floats of that binade.
\<close>

primrec binade :: "nat \<Rightarrow> real \<Rightarrow> int \<Rightarrow> int" where
  "binade 0 x e = e"
| "binade (Suc fuel) x e =
     (if 2 \<le> x then binade fuel (x / 2) (e + 1)
      else if x < 1 then binade fuel (x * 2) (e - 1)
      else e)"

definition binary64 :: "real \<Rightarrow> real" where
  "binary64 x =
     (if x = 0 then 0
      else let e = binade 1100 \<bar>x\<bar> 0;
               ulp = (if 52 \<le> e then 2 ^ nat (e - 52) else 1 / 2 ^ nat (52 - e))
           in of_int (round_half_even (x / ulp)) * ulp)"


section \<open>pandas and scikit-learn\<close>

text \<open>
  The training and prediction scripts are sequences of calls into pandas and
  scikit-learn, which are outside the repository. What the scripts rely on is modelled
  here. A \<open>DataFrame\<close> is its list of named columns, in column order; row labels (the
  index) are left out, since nothing in the scripts reads them. A raised exception is a
  value of \<open>error\<close>.
\<close>

datatype error = KeyError | IndexError | ValueError | TypeError

datatype cell = Num real | Str string | Bool bool | NA

type_synonym dataframe = "(string \<times> cell list) list"

definition get_column :: "dataframe \<Rightarrow> string \<Rightarrow> error + cell list" where
  \<comment> \<open>\<open>df[name]\<close>\<close>
  "get_column df name = (case map_of df name of None \<Rightarrow> Inl KeyError | Some col \<Rightarrow> Inr col)"

definition set_column :: "dataframe \<Rightarrow> string \<Rightarrow> cell list \<Rightarrow> dataframe" where
  \<comment> \<open>\<open>df[name] = values\<close>: replaces the column in place, or appends a new last column.\<close>
  "set_column df name col = AList.update name col df"

fun select_columns :: "dataframe \<Rightarrow> string list \<Rightarrow> error + dataframe" where
  \<comment> \<open>\<open>df[names]\<close>\<close>
  "select_columns df [] = Inr []"
| "select_columns df (name # names) =
     (case get_column df name of
        Inl e \<Rightarrow> Inl e
      | Inr col \<Rightarrow>
          (case select_columns df names of
             Inl e \<Rightarrow> Inl e
           | Inr rest \<Rightarrow> Inr ((name, col) # rest)))"

definition drop_column :: "dataframe \<Rightarrow> string \<Rightarrow> error + dataframe" where
  \<comment> \<open>\<open>df.drop(columns=[name])\<close>\<close>
  "drop_column df name =
     (if name \<in> fst ` set df then Inr (AList.delete name df) else Inl KeyError)"

definition nrows :: "dataframe \<Rightarrow> nat" where
  "nrows df = (case df of [] \<Rightarrow> 0 | (name, col) # rest \<Rightarrow> length col)"

definition frame_rows :: "dataframe \<Rightarrow> cell list list" where
  \<comment> \<open>The rows of the frame, each a list of cells in column order.\<close>
  "frame_rows df = transpose (map snd df)"

definition one_row_frame :: "(string \<times> cell) list \<Rightarrow> dataframe" where
  \<comment> \<open>\<open>pd.DataFrame([d])\<close> for a dictionary \<open>d\<close>\<close>
  "one_row_frame d = map (\<lambda>(name, v). (name, [v])) d"

definition is_True :: "cell \<Rightarrow> bool" where
  \<comment> \<open>\<open>v == True\<close>, elementwise: Python's \<open>True\<close> equals the number 1.\<close>
  "is_True v = (v = Bool True \<or> v = Num 1)"

definition keep_rows :: "bool list \<Rightarrow> 'a list \<Rightarrow> 'a list" where
  "keep_rows keep col = map snd (filter fst (zip keep col))"

definition boolean_index :: "dataframe \<Rightarrow> bool list \<Rightarrow> dataframe" where
  \<comment> \<open>\<open>df[mask]\<close>\<close>
  "boolean_index df keep = map (\<lambda>(name, col). (name, keep_rows keep col)) df"

subsection \<open>LabelEncoder\<close>

text \<open>
  A fitted encoder is its list of classes, sorted and without repetition; a label is
  encoded as its position. The scripts encode the \<open>model\<close> and \<open>repair_type\<close>
  columns, which hold names, so only string labels are modelled: a label that is not a
  string is reported as \<open>TypeError\<close>, as scikit-learn does for a column that mixes
  strings with numbers.
\<close>

fun label_strings :: "cell list \<Rightarrow> error + string list" where
  "label_strings [] = Inr []"
| "label_strings (Str s # cs) =
     (case label_strings cs of Inl e \<Rightarrow> Inl e | Inr ss \<Rightarrow> Inr (s # ss))"
| "label_strings (c # cs) = Inl TypeError"

fun index_of :: "'a list \<Rightarrow> 'a \<Rightarrow> nat option" where
  "index_of [] x = None"
| "index_of (y # ys) x = (if x = y then Some 0 else map_option Suc (index_of ys x))"

definition le_transform_label :: "string list \<Rightarrow> cell \<Rightarrow> error + cell" where
  \<comment> \<open>One label through \<open>transform\<close>: a label not seen in fitting raises \<open>ValueError\<close>.\<close>
  "le_transform_label classes v =
     (case v of
        Str s \<Rightarrow> (case index_of classes s of None \<Rightarrow> Inl ValueError | Some i \<Rightarrow> Inr (Num (real i)))
      | _ \<Rightarrow> Inl TypeError)"

fun le_transform :: "string list \<Rightarrow> cell list \<Rightarrow> error + cell list" where
  \<comment> \<open>\<open>le.transform(values)\<close>\<close>
  "le_transform classes [] = Inr []"
| "le_transform classes (v # vs) =
     (case le_transform_label classes v of
        Inl e \<Rightarrow> Inl e
      | Inr c \<Rightarrow>
          (case le_transform classes vs of Inl e \<Rightarrow> Inl e | Inr cs \<Rightarrow> Inr (c # cs)))"

definition le_fit_transform :: "cell list \<Rightarrow> error + (string list \<times> cell list)" where
  \<comment> \<open>\<open>le.fit_transform(values)\<close>: the fitted classes and the encoded column.\<close>
  "le_fit_transform col =
     (case label_strings col of
        Inl e \<Rightarrow> Inl e
      | Inr ss \<Rightarrow>
          (let classes = sort (remdups ss)
           in (case le_transform classes col of
                 Inl e \<Rightarrow> Inl e
               | Inr enc \<Rightarrow> Inr (classes, enc))))"

subsection \<open>GradientBoostingRegressor and train_test_split\<close>

text \<open>
  The regressor is a parameter of the model. A fitted regressor is its prediction
  function on one row of feature values together with the feature names it was fitted
  on; \<open>predict\<close> refuses a frame with other columns, a missing value or a value that
  is not a number. Fitting with a fixed \<open>random_state\<close> is a function of the
  hyperparameters and the training data, and \<open>train_test_split\<close> with a fixed
  \<open>random_state\<close> is a function of the number of rows that returns positions below it.
\<close>

record fitted =
  feature_names_in :: "string list"
  predict_row :: "real list \<Rightarrow> real"

record gbr_params =
  n_estimators :: nat
  max_depth :: nat
  learning_rate :: real
  min_samples_split :: nat
  min_samples_leaf :: nat
  subsample :: real
  random_state :: nat

record sklearn =
  gbr_fit :: "gbr_params \<Rightarrow> string list \<Rightarrow> real list list \<Rightarrow> real list \<Rightarrow> error + fitted"
  train_test_split :: "nat \<Rightarrow> error + (nat list \<times> nat list)"

definition to_float :: "cell \<Rightarrow> error + real" where
  "to_float v =
     (case v of
        Num x \<Rightarrow> Inr x
      | Bool b \<Rightarrow> Inr (if b then 1 else 0)
      | Str s \<Rightarrow> Inl ValueError
      | NA \<Rightarrow> Inl ValueError)"

fun to_floats :: "cell list \<Rightarrow> error + real list" where
  "to_floats [] = Inr []"
| "to_floats (v # vs) =
     (case to_float v of
        Inl e \<Rightarrow> Inl e
      | Inr x \<Rightarrow> (case to_floats vs of Inl e \<Rightarrow> Inl e | Inr xs \<Rightarrow> Inr (x # xs)))"

fun to_matrix :: "cell list list \<Rightarrow> error + real list list" where
  "to_matrix [] = Inr []"
| "to_matrix (r # rs) =
     (case to_floats r of
        Inl e \<Rightarrow> Inl e
      | Inr xs \<Rightarrow> (case to_matrix rs of Inl e \<Rightarrow> Inl e | Inr m \<Rightarrow> Inr (xs # m)))"

definition model_predict :: "fitted \<Rightarrow> dataframe \<Rightarrow> error + real list" where
  \<comment> \<open>\<open>model.predict(df)\<close>: one prediction per row.\<close>
  "model_predict m df =
     (if map fst df \<noteq> feature_names_in m then Inl ValueError
      else (case to_matrix (frame_rows df) of
              Inl e \<Rightarrow> Inl e
            | Inr rows \<Rightarrow> Inr (map (predict_row m) rows)))"

definition first_element :: "'a list \<Rightarrow> error + 'a" where
  \<comment> \<open>\<open>xs[0]\<close>\<close>
  "first_element xs = (case xs of [] \<Rightarrow> Inl IndexError | x # rest \<Rightarrow> Inr x)"

definition positions :: "'a list \<Rightarrow> nat list \<Rightarrow> error + 'a list" where
  \<comment> \<open>Selection by position, in the order of the positions; a position past the end
      raises \<open>IndexError\<close>.\<close>
  "positions xs idx =
     (if \<forall>i \<in> set idx. i < length xs then Inr (map (\<lambda>i. xs ! i) idx) else Inl IndexError)"

fun take_rows :: "dataframe \<Rightarrow> nat list \<Rightarrow> error + dataframe" where
  \<comment> \<open>The rows of a frame at the given positions, column by column.\<close>
  "take_rows [] idx = Inr []"
| "take_rows ((name, col) # rest) idx =
     (case positions col idx of
        Inl e \<Rightarrow> Inl e
      | Inr col' \<Rightarrow>
          (case take_rows rest idx of Inl e \<Rightarrow> Inl e | Inr rest' \<Rightarrow> Inr ((name, col') # rest')))"

subsection \<open>Missing values\<close>

fun numeric_values :: "cell list \<Rightarrow> error + real list" where
  \<comment> \<open>The values a column mean is taken over: missing cells are skipped, and a string
      makes the mean a \<open>TypeError\<close>.\<close>
  "numeric_values [] = Inr []"
| "numeric_values (NA # vs) = numeric_values vs"
| "numeric_values (Str s # vs) = Inl TypeError"
| "numeric_values (v # vs) =
     (case to_float v of
        Inl e \<Rightarrow> Inl e
      | Inr x \<Rightarrow> (case numeric_values vs of Inl e \<Rightarrow> Inl e | Inr xs \<Rightarrow> Inr (x # xs)))"

definition fill_column :: "cell list \<Rightarrow> error + cell list" where
  \<comment> \<open>One column of \<open>X.fillna(X.mean())\<close>: a column with no value at all has no mean
      and keeps its missing cells.\<close>
  "fill_column col =
     (case numeric_values col of
        Inl e \<Rightarrow> Inl e
      | Inr xs \<Rightarrow>
          (if xs = [] then Inr col
           else Inr (map (\<lambda>v. if v = NA then Num (sum_list xs / real (length xs)) else v) col)))"

fun fillna_mean :: "dataframe \<Rightarrow> error + dataframe" where
  "fillna_mean [] = Inr []"
| "fillna_mean ((name, col) # rest) =
     (case fill_column col of
        Inl e \<Rightarrow> Inl e
      | Inr col' \<Rightarrow>
          (case fillna_mean rest of Inl e \<Rightarrow> Inl e | Inr rest' \<Rightarrow> Inr ((name, col') # rest')))"

definition has_null :: "dataframe \<Rightarrow> bool" where
  \<comment> \<open>\<open>X.isnull().sum().sum() > 0\<close>\<close>
  "has_null df = (\<exists>(name, col) \<in> set df. NA \<in> set col)"

definition handle_missing :: "dataframe \<Rightarrow> error + dataframe" where
  "handle_missing X = (if has_null X then fillna_mean X else Inr X)"


section \<open>batteryHealth.py: preparing the features and predicting\<close>

definition battery_feature_cols :: "string list" where
  "battery_feature_cols =
     [''age_years'', ''mileage'', ''battery_cycles'', ''fast_charge_ratio'',
      ''avg_temperature_c'', ''avg_depth_of_discharge'', ''voltage'',
      ''internal_resistance_mohm'', ''charging_efficiency'', ''battery_capacity_kwh'']"

definition prepare_battery_health_data ::
    "dataframe \<Rightarrow> (error + dataframe \<times> cell list \<times> string list \<times> string list) \<times> dataframe" where
  \<comment> \<open>The caller's frame is an object the function writes to: it is passed in and
      returned as the second component, also when the call raises. The first component
      is \<open>(X, y, le_model, feature_cols)\<close>, the encoder being its classes.\<close>
  "prepare_battery_health_data df =
     (let feature_cols = battery_feature_cols
      in case get_column df ''model'' of
           Inl e \<Rightarrow> (Inl e, df)
         | Inr model_column \<Rightarrow>
             (case le_fit_transform model_column of
                Inl e \<Rightarrow> (Inl e, df)
              | Inr (le_model, encoded) \<Rightarrow>
                  (let df = set_column df ''model_encoded'' encoded;
                       feature_cols = feature_cols @ [''model_encoded'']
                   in case select_columns df feature_cols of
                        Inl e \<Rightarrow> (Inl e, df)
                      | Inr X \<Rightarrow>
                          (case get_column df ''battery_health_percent'' of
                             Inl e \<Rightarrow> (Inl e, df)
                           | Inr y \<Rightarrow> (Inr (X, y, le_model, feature_cols), df)))))"

text \<open>
  What a predictor prints is returned with its result. The two warnings of
  \<open>predict_repair_cost\<close> are the only lines a predictor prints; each carries the
  value it did not know.
\<close>

datatype message = UnknownModel cell | UnknownRepairType cell

definition predict_battery_health ::
    "fitted \<Rightarrow> string list \<Rightarrow> string list \<Rightarrow> (string \<times> cell) list \<Rightarrow> (error + real) \<times> message list" where
  \<comment> \<open>The bare \<open>except\<close> catches whatever the encoding raises, a missing \<open>model\<close>
      key included, and nothing is printed there.\<close>
  "predict_battery_health =
     (\<lambda>model le_model feature_cols input_data.
      let input_df = one_row_frame input_data;
          encoded =
            (case get_column input_df ''model'' of
               Inl e \<Rightarrow> Inl e
             | Inr model_column \<Rightarrow> le_transform le_model model_column);
          input_df =
            (case encoded of
               Inr codes \<Rightarrow> set_column input_df ''model_encoded'' codes
             | Inl e \<Rightarrow> set_column input_df ''model_encoded'' [Num 0])
      in case drop_column input_df ''model'' of
           Inl e \<Rightarrow> (Inl e, [])
         | Inr input_df \<Rightarrow>
             (case select_columns input_df feature_cols of
                Inl e \<Rightarrow> (Inl e, [])
              | Inr input_df \<Rightarrow>
                  (case model_predict model input_df of
                     Inl e \<Rightarrow> (Inl e, [])
                   | Inr predictions \<Rightarrow>
                       (case first_element predictions of
                          Inl e \<Rightarrow> (Inl e, [])
                        | Inr prediction \<Rightarrow> (Inr (max 0 (min 100 prediction)), [])))))"

definition frame_of_rows :: "battery_row list \<Rightarrow> dataframe" where
  \<comment> \<open>\<open>pd.DataFrame(data)\<close> for the generator's list of dictionaries; an empty list
      gives a frame with no columns.\<close>
  "frame_of_rows data =
     (if data = [] then [] else
     [(''model'', map (\<lambda>r. Str (model r)) data),
      (''age_years'', map (\<lambda>r. Num (age_years r)) data),
      (''mileage'', map (\<lambda>r. Num (of_int (mileage r))) data),
      (''battery_cycles'', map (\<lambda>r. Num (of_int (battery_cycles r))) data),
      (''fast_charge_ratio'', map (\<lambda>r. Num (fast_charge_ratio r)) data),
      (''avg_temperature_c'', map (\<lambda>r. Num (avg_temperature_c r)) data),
      (''avg_depth_of_discharge'', map (\<lambda>r. Num (avg_depth_of_discharge r)) data),
      (''voltage'', map (\<lambda>r. Num (voltage r)) data),
      (''internal_resistance_mohm'', map (\<lambda>r. Num (internal_resistance_mohm r)) data),
      (''charging_efficiency'', map (\<lambda>r. Num (charging_efficiency r)) data),
      (''battery_capacity_kwh'', map (\<lambda>r. Num (of_int (battery_capacity_kwh r))) data),
      (''battery_health_percent'', map (\<lambda>r. Num (battery_health_percent r)) data)])"

section \<open>repairecost.py and train_simplified_model.py: the repair-cost model\<close>

definition repair_records :: "dataframe \<Rightarrow> error + dataframe" where
  \<comment> \<open>\<open>df[df['needs_repair'] == True].copy()\<close>, the first statement of both trainers.\<close>
  "repair_records df =
     (case get_column df ''needs_repair'' of
        Inl e \<Rightarrow> Inl e
      | Inr needs_repair \<Rightarrow> Inr (boolean_index df (map is_True needs_repair)))"

definition repair_feature_cols :: "string list" where
  "repair_feature_cols =
     [''age_years'', ''mileage_km'', ''battery_health_percent'', ''battery_capacity_kwh'']"

definition encode_labels ::
    "dataframe \<Rightarrow> error + (dataframe \<times> string list \<times> string list)" where
  \<comment> \<open>Both scripts: fit the two encoders on the repair records and store the codes in
      two new columns. Returns the frame and the classes of \<open>le_model\<close> and \<open>le_repair\<close>.\<close>
  "encode_labels df_repair =
     (case get_column df_repair ''model'' of
        Inl e \<Rightarrow> Inl e
      | Inr model_column \<Rightarrow>
          (case le_fit_transform model_column of
             Inl e \<Rightarrow> Inl e
           | Inr (le_model, model_encoded) \<Rightarrow>
               (let df_repair = set_column df_repair ''model_encoded'' model_encoded
                in case get_column df_repair ''repair_type'' of
                     Inl e \<Rightarrow> Inl e
                   | Inr repair_column \<Rightarrow>
                       (case le_fit_transform repair_column of
                          Inl e \<Rightarrow> Inl e
                        | Inr (le_repair, repair_encoded) \<Rightarrow>
                            Inr (set_column df_repair ''repair_type_encoded'' repair_encoded,
                                 le_model, le_repair)))))"

definition feature_matrix ::
    "dataframe \<Rightarrow> string list \<Rightarrow> error + (dataframe \<times> cell list)" where
  \<comment> \<open>Both scripts: \<open>X\<close> with its missing values filled, and \<open>y\<close>.\<close>
  "feature_matrix df_repair feature_cols =
     (case select_columns df_repair feature_cols of
        Inl e \<Rightarrow> Inl e
      | Inr X \<Rightarrow>
          (case get_column df_repair ''out_of_pocket_cost_lkr'' of
             Inl e \<Rightarrow> Inl e
           | Inr y \<Rightarrow>
               (case handle_missing X of Inl e \<Rightarrow> Inl e | Inr X \<Rightarrow> Inr (X, y))))"

definition prepare_simplified_repair_data ::
    "dataframe \<Rightarrow> error + (dataframe \<times> cell list \<times> (string \<times> string list) list \<times> string list)" where
  \<comment> \<open>Returns \<open>(X, y, encoders, feature_cols)\<close>; the count it prints is left out.\<close>
  "prepare_simplified_repair_data df =
     (case repair_records df of
        Inl e \<Rightarrow> Inl e
      | Inr df_repair \<Rightarrow>
          (let feature_cols = repair_feature_cols
           in case encode_labels df_repair of
                Inl e \<Rightarrow> Inl e
              | Inr (df_repair, le_model, le_repair) \<Rightarrow>
                  (let feature_cols = feature_cols @ [''model_encoded'', ''repair_type_encoded'']
                   in case feature_matrix df_repair feature_cols of
                        Inl e \<Rightarrow> Inl e
                      | Inr (X, y) \<Rightarrow>
                          (let encoders = [(''model'', le_model), (''repair_type'', le_repair)]
                           in Inr (X, y, encoders, feature_cols)))))"

definition fit_frame ::
    "sklearn \<Rightarrow> gbr_params \<Rightarrow> dataframe \<Rightarrow> cell list \<Rightarrow> error + fitted" where
  \<comment> \<open>\<open>GradientBoostingRegressor(...).fit(X, y)\<close>\<close>
  "fit_frame sk params X y =
     (case to_matrix (frame_rows X) of
        Inl e \<Rightarrow> Inl e
      | Inr rows \<Rightarrow>
          (case to_floats y of
             Inl e \<Rightarrow> Inl e
           | Inr targets \<Rightarrow> gbr_fit sk params (map fst X) rows targets))"

definition simplified_params :: gbr_params where
  "simplified_params =
     \<lparr> n_estimators = 250, max_depth = 8, learning_rate = 0.08, min_samples_split = 8,
       min_samples_leaf = 4, subsample = 0.85, random_state = 42 \<rparr>"

definition train_simplified_repair_model ::
    "sklearn \<Rightarrow> dataframe \<Rightarrow> error + (fitted \<times> (string \<times> string list) list \<times> string list)" where
  \<comment> \<open>Returns \<open>(model, encoders, feature_cols)\<close>, which are also the three artifacts it
      writes. The report it prints and the writing of the files are left out; the
      evaluation on the test rows is kept as far as it can raise.\<close>
  "train_simplified_repair_model sk df =
     (case prepare_simplified_repair_data df of
        Inl e \<Rightarrow> Inl e
      | Inr (X, y, encoders, feature_cols) \<Rightarrow>
          (case train_test_split sk (nrows X) of
             Inl e \<Rightarrow> Inl e
           | Inr (train, test) \<Rightarrow>
               (case take_rows X train of
                  Inl e \<Rightarrow> Inl e
                | Inr X_train \<Rightarrow>
               (case take_rows X test of
                  Inl e \<Rightarrow> Inl e
                | Inr X_test \<Rightarrow>
               (case positions y train of
                  Inl e \<Rightarrow> Inl e
                | Inr y_train \<Rightarrow>
               (case positions y test of
                  Inl e \<Rightarrow> Inl e
                | Inr y_test \<Rightarrow>
               (case fit_frame sk simplified_params X_train y_train of
                  Inl e \<Rightarrow> Inl e
                | Inr fitted_model \<Rightarrow>
               (case model_predict fitted_model X_test of
                  Inl e \<Rightarrow> Inl e
                | Inr y_pred_test \<Rightarrow>
               (case to_floats y_test of
                  Inl e \<Rightarrow> Inl e
                | Inr targets \<Rightarrow> Inr (fitted_model, encoders, feature_cols))))))))))"

definition convert_params :: gbr_params where
  \<comment> \<open>The hyperparameters not given keep scikit-learn's defaults.\<close>
  "convert_params =
     \<lparr> n_estimators = 200, max_depth = 10, learning_rate = 0.1, min_samples_split = 2,
       min_samples_leaf = 1, subsample = 1.0, random_state = 42 \<rparr>"

definition train_and_convert :: "sklearn \<Rightarrow> dataframe \<Rightarrow> error + (fitted \<times> string list)" where
  \<comment> \<open>The frame is the table \<open>read_csv\<close> returned. The result is what the function
      writes: the fitted model, of which the ONNX file is a conversion, and the feature
      list. The encoders are fitted and not written.\<close>
  "train_and_convert sk df =
     (case repair_records df of
        Inl e \<Rightarrow> Inl e
      | Inr df_repair \<Rightarrow>
          (case encode_labels df_repair of
             Inl e \<Rightarrow> Inl e
           | Inr (df_repair, le_model, le_repair) \<Rightarrow>
               (let feature_cols = repair_feature_cols @ [''model_encoded'', ''repair_type_encoded'']
                in case feature_matrix df_repair feature_cols of
                     Inl e \<Rightarrow> Inl e
                   | Inr (X, y) \<Rightarrow>
                       (case fit_frame sk convert_params X y of
                          Inl e \<Rightarrow> Inl e
                        | Inr fitted_model \<Rightarrow> Inr (fitted_model, feature_cols)))))"

definition encode_or_default ::
    "(string \<times> string list) list \<Rightarrow> string \<Rightarrow> cell \<Rightarrow> error + cell" where
  \<comment> \<open>\<open>encoders[key].transform([value])[0]\<close>, the body of each \<open>try\<close>.\<close>
  "encode_or_default encoders key v =
     (case map_of encoders key of
        None \<Rightarrow> Inl KeyError
      | Some classes \<Rightarrow>
          (case le_transform classes [v] of
             Inl e \<Rightarrow> Inl e
           | Inr codes \<Rightarrow> first_element codes))"

definition predict_repair_cost ::
    "fitted \<Rightarrow> (string \<times> string list) list \<Rightarrow> string list
       \<Rightarrow> cell \<Rightarrow> cell \<Rightarrow> cell \<Rightarrow> cell \<Rightarrow> cell \<Rightarrow> cell \<Rightarrow> (error + real) \<times> message list" where
  "predict_repair_cost =
     (\<lambda>model encoders feature_cols age_years mileage_km battery_health battery_capacity
        model_name repair_type.
      let input_data =
            [(''age_years'', age_years), (''mileage_km'', mileage_km),
             (''battery_health_percent'', battery_health),
             (''battery_capacity_kwh'', battery_capacity)];
          df = one_row_frame input_data;
          (df, out) =
            (case encode_or_default encoders ''model'' model_name of
               Inr code \<Rightarrow> (set_column df ''model_encoded'' [code], [])
             | Inl e \<Rightarrow> (set_column df ''model_encoded'' [Num 0], [UnknownModel model_name]));
          (df, out) =
            (case encode_or_default encoders ''repair_type'' repair_type of
               Inr code \<Rightarrow> (set_column df ''repair_type_encoded'' [code], out)
             | Inl e \<Rightarrow>
                 (set_column df ''repair_type_encoded'' [Num 0],
                  out @ [UnknownRepairType repair_type]))
      in case select_columns df feature_cols of
           Inl e \<Rightarrow> (Inl e, out)
         | Inr df \<Rightarrow>
             (case model_predict model df of
                Inl e \<Rightarrow> (Inl e, out)
              | Inr predictions \<Rightarrow>
                  (case first_element predictions of
                     Inl e \<Rightarrow> (Inl e, out)
                   | Inr prediction \<Rightarrow> (Inr (max 0 prediction), out))))"

section \<open>Sample data\<close>

text \<open>
  Stand-ins for the library's parameters, to run the scripts on: a fitted model that
  predicts the sum of its features, and a scikit-learn whose regressor predicts the
  mean of its training targets and whose split puts the first fifth of the rows, rounded
  up, in the test set.
\<close>

definition sum_model :: "string list \<Rightarrow> fitted" where
  "sum_model names = \<lparr> feature_names_in = names, predict_row = sum_list \<rparr>"

definition mean_sklearn :: sklearn where
  "mean_sklearn =
     \<lparr> gbr_fit = (\<lambda>params names rows targets.
         if targets = [] then Inl ValueError
         else Inr \<lparr> feature_names_in = names,
                    predict_row = (\<lambda>row. sum_list targets / real (length targets)) \<rparr>),
       train_test_split = (\<lambda>n.
         let n_test = (n + 4) div 5
         in if n \<le> n_test then Inl ValueError
            else Inr ([n_test..<n], [0..<n_test])) \<rparr>"

definition test_2 :: "(string \<times> cell) list" where
  \<comment> \<open>The script's second test case, with a model name that is not in the catalogue.\<close>
  "test_2 =
     [(''age_years'', Num 0.5), (''mileage'', Num 5000), (''battery_cycles'', Num 50),
      (''fast_charge_ratio'', Num 0.1), (''avg_temperature_c'', Num 20),
      (''avg_depth_of_discharge'', Num 0.5), (''voltage'', Num 395),
      (''internal_resistance_mohm'', Num 2.0), (''charging_efficiency'', Num 0.95),
      (''battery_capacity_kwh'', Num 75), (''model'', Str ''Lucid Air'')]"

definition repair_encoders :: "(string \<times> string list) list" where
  "repair_encoders =
     [(''model'', [''BYD Atto 3'', ''Nissan Leaf'', ''Tesla Model 3'']),
      (''repair_type'', [''Battery Replacement'', ''Charging Port Repair'', ''Motor Repair''])]"

definition repairs_a :: dataframe where
  "repairs_a =
     [(''needs_repair'', [Bool True, Bool False, Bool True, Bool True]),
      (''model'', [Str ''Nissan Leaf'', Str ''BMW i3'', Str ''Tesla Model 3'', Str ''Nissan Leaf'']),
      (''repair_type'', [Str ''Motor Repair'', Str ''None'', Str ''Battery Replacement'', Str ''Motor Repair'']),
      (''age_years'', [Num 7, Num 1, Num 4, Num 3]),
      (''mileage_km'', [Num 85000, Num 9000, Num 55000, NA]),
      (''battery_health_percent'', [Num 65, Num 99, Num 78, Num 88]),
      (''battery_capacity_kwh'', [Num 40, Num 42, Num 75, Num 40]),
      (''out_of_pocket_cost_lkr'', [Num 900000, Num 0, Num 250000, Num 120000])]"

definition repairs_b :: dataframe where
  \<comment> \<open>The repair records of \<open>repairs_a\<close>, among other rows that need no repair.\<close>
  "repairs_b =
     [(''needs_repair'', [Bool False, Bool True, Bool True, Bool False, Bool True]),
      (''model'', [Str ''MG ZS EV'', Str ''Nissan Leaf'', Str ''Tesla Model 3'', NA, Str ''Nissan Leaf'']),
      (''repair_type'', [NA, Str ''Motor Repair'', Str ''Battery Replacement'', NA, Str ''Motor Repair'']),
      (''age_years'', [Num 2, Num 7, Num 4, Num 9, Num 3]),
      (''mileage_km'', [Num 1, Num 85000, Num 55000, Num 200000, NA]),
      (''battery_health_percent'', [Num 97, Num 65, Num 78, NA, Num 88]),
      (''battery_capacity_kwh'', [Num 50, Num 40, Num 75, Num 60, Num 40]),
      (''out_of_pocket_cost_lkr'', [NA, Num 900000, Num 250000, Num 5, Num 120000])]"

section \<open>Rounding and truncation\<close>



lemma round_half_even_mono: "x \<le> y \<Longrightarrow> round_half_even x \<le> round_half_even y"
proof (cases "\<lfloor>x\<rfloor> = \<lfloor>y\<rfloor>")
  case True
  assume xy: "x \<le> y"
  then have d: "x - of_int \<lfloor>y\<rfloor> \<le> y - of_int \<lfloor>y\<rfloor>" by simp
  show ?thesis
    unfolding round_half_even_def Let_def True
    using d by (simp split: if_splits)
next
  case False
  assume xy: "x \<le> y"
  then have "\<lfloor>x\<rfloor> \<le> \<lfloor>y\<rfloor>" by (rule floor_mono)
  with False have "\<lfloor>x\<rfloor> + 1 \<le> \<lfloor>y\<rfloor>" by simp
  moreover have "round_half_even x \<le> \<lfloor>x\<rfloor> + 1" by (simp add: round_half_even_def Let_def)
  moreover have "\<lfloor>y\<rfloor> \<le> round_half_even y" by (simp add: round_half_even_def Let_def)
  ultimately show ?thesis by linarith
qed

lemma py_round_mono: "x \<le> y \<Longrightarrow> py_round x k \<le> py_round y k"
  unfolding py_round_def
  by (intro divide_right_mono) (auto intro!: round_half_even_mono mult_right_mono)






lemma py_int_nonneg_iff: "(0 \<le> py_int x) = (- 1 < x)"
proof (cases "0 \<le> x")
  case True
  then show ?thesis by (simp add: py_int_def)
next
  case False
  then have "(0 \<le> \<lceil>x\<rceil>) = (- 1 < x)" by (simp add: le_ceiling_iff)
  with False show ?thesis by (simp add: py_int_def)
qed

section \<open>The random source's contract\<close>


lemma choice_contractD:
  "choice_contract R \<Longrightarrow> xs \<noteq> [] \<Longrightarrow> fst (np_choice R xs g) \<in> set xs"
  unfolding choice_contract_def np_choice_def Let_def split_def
  by (simp add: nth_mem)


lemma replay_choice_contract: "choice_contract (replay_source tape)"
proof -
  have "nat \<lfloor>frac x * real n\<rfloor> < n" if "0 < n" for x :: real and n :: nat
  proof -
    have "frac x * real n < 1 * real n"
      using that frac_lt_1 [of x] by (intro mult_strict_right_mono) simp_all
    then have "\<lfloor>frac x * real n\<rfloor> < int n" by (simp add: floor_less_iff)
    moreover have "0 \<le> \<lfloor>frac x * real n\<rfloor>" using frac_ge_0 [of x] by simp
    ultimately show ?thesis by linarith
  qed
  then show ?thesis
    unfolding choice_contract_def replay_source_def by (simp add: split_def Let_def)
qed

section \<open>The rows of a generated table\<close>

text \<open>
  One iteration, with its fourteen draws named: the row is built from them as the
  source builds it.
\<close>

lemma loop_body_shape:
  obtains age annual mn cn fcr temp dod vn rn en mdl cap u z g1 g2 g3 g6 g7 g10 g11 g12 g13 g14
  where
    "loop_body R g =
       (data_row mdl age (age * annual + mn) (py_int ((age * annual + mn) / 300 + cn))
          fcr temp dod (400 - age * 1.5 + vn) (2.0 + age * 0.8 + rn)
          (max 0.80 (min 0.98 (0.95 - age * 0.008 + en))) cap
          (max 40 (min 100
             (degradation age (py_int ((age * annual + mn) / 300 + cn)) fcr temp dod
                (age * annual + mn) u z))), g14)"
    and "np_uniform R 0.1 10 g = (age, g1)"
    and "np_uniform R 8000 25000 g1 = (annual, g2)"
    and "np_normal R 0 2000 g2 = (mn, g3)"
    and "np_uniform R 0.3 0.9 g6 = (dod, g7)"
    and "np_choice R ev_models g10 = (mdl, g11)"
    and "(if str_contains ''Tesla'' mdl then np_choice R [50, 75, 100] g11
          else if str_contains ''Nissan Leaf'' mdl then np_choice R [40, 62] g11
          else if str_contains ''Rivian'' mdl then np_choice R [135, 180] g11
          else np_choice R [50, 60, 75, 82] g11) = (cap, g12)"
    and "np_uniform R 2 3 g12 = (u, g13)"
    and "np_normal R 0 2 g13 = (z, g14)"
proof -
  obtain age g1 where d1: "np_uniform R 0.1 10 g = (age, g1)" by (metis surj_pair)
  obtain annual g2 where d2: "np_uniform R 8000 25000 g1 = (annual, g2)" by (metis surj_pair)
  obtain mn g3 where d3: "np_normal R 0 2000 g2 = (mn, g3)" by (metis surj_pair)
  obtain cn g4 where d4: "np_normal R 0 50 g3 = (cn, g4)" by (metis surj_pair)
  obtain fcr g5 where d5:
    "(if age < 3 then np_beta R 2 5 g4 else np_beta R 1.5 4 g4) = (fcr, g5)"
    by (metis surj_pair)
  obtain temp g6 where d6: "np_uniform R 15 40 g5 = (temp, g6)" by (metis surj_pair)
  obtain dod g7 where d7: "np_uniform R 0.3 0.9 g6 = (dod, g7)" by (metis surj_pair)
  obtain vn g8 where d8: "np_normal R 0 5 g7 = (vn, g8)" by (metis surj_pair)
  obtain rn g9 where d9: "np_uniform R 0 1 g8 = (rn, g9)" by (metis surj_pair)
  obtain en g10 where d10: "np_uniform R (- 0.02) 0.01 g9 = (en, g10)" by (metis surj_pair)
  obtain mdl g11 where d11: "np_choice R ev_models g10 = (mdl, g11)" by (metis surj_pair)
  obtain cap :: int and g12 where d12:
    "(if str_contains ''Tesla'' mdl then np_choice R [50, 75, 100] g11
      else if str_contains ''Nissan Leaf'' mdl then np_choice R [40, 62] g11
      else if str_contains ''Rivian'' mdl then np_choice R [135, 180] g11
      else np_choice R [50, 60, 75, 82] g11) = (cap, g12)"
    by (metis surj_pair)
  obtain u g13 where d13: "np_uniform R 2 3 g12 = (u, g13)" by (metis surj_pair)
  obtain z g14 where d14: "np_normal R 0 2 g13 = (z, g14)" by (metis surj_pair)
  have "loop_body R g =
       (data_row mdl age (age * annual + mn) (py_int ((age * annual + mn) / 300 + cn))
          fcr temp dod (400 - age * 1.5 + vn) (2.0 + age * 0.8 + rn)
          (max 0.80 (min 0.98 (0.95 - age * 0.008 + en))) cap
          (max 40 (min 100
             (degradation age (py_int ((age * annual + mn) / 300 + cn)) fcr temp dod
                (age * annual + mn) u z))), g14)"
    unfolding loop_body_def d1 prod.case Let_def d2 d3 d4 d5 d6 d7 d8 d9 d10 d11 d12 d13 d14
    by (rule refl)
  then show ?thesis using d1 d2 d3 d7 d11 d12 d13 d14 by (rule that)
qed

lemma gen_loop_rows:
  "r \<in> set (fst (gen_loop R k data g)) \<Longrightarrow>
     r \<in> set data \<or> (\<exists>g'. r = fst (loop_body R g'))"
proof (induction k arbitrary: data g)
  case 0
  then show ?case by simp
next
  case (Suc k)
  obtain row g1 where b: "loop_body R g = (row, g1)" by (cases "loop_body R g")
  with Suc.prems have "r \<in> set (fst (gen_loop R k (data @ [row]) g1))" by simp
  from Suc.IH [OF this] show ?case
  proof
    assume "r \<in> set (data @ [row])"
    with b show ?thesis by (auto intro: exI [of _ g])
  next
    assume "\<exists>g'. r = fst (loop_body R g')"
    then show ?thesis ..
  qed
qed

lemma generate_rows:
  "r \<in> set (fst (generate_realistic_battery_data R n g)) \<Longrightarrow>
     \<exists>g'. r = fst (loop_body R g')"
  using gen_loop_rows [of r R "nat n" "[]" "np_seed R 42"]
  by (simp add: generate_realistic_battery_data_def)

lemma degradation_closed_form:
  "degradation age cycles fcr temp dod mil u z = health_formula age cycles fcr temp dod mil u z"
  by (simp add: degradation_def health_formula_def Let_def)

lemma sample_generate:
  "fst (generate_realistic_battery_data (replay_source sample_tape) 1 []) = [sample_row]"
  by code_simp

section \<open>The rows of a table generated in floating-point arithmetic\<close>

lemma py_round_fl_exact: "py_round_fl (\<lambda>x. x) = py_round"
  by (simp add: py_round_fl_def py_round_def fun_eq_iff)

lemma degradation_fl_exact: "degradation_fl (\<lambda>x. x) = degradation"
  by (simp add: degradation_fl_def degradation_def)

lemma data_row_fl_exact: "data_row_fl (\<lambda>x. x) = data_row"
  by (simp add: data_row_fl_def data_row_def py_round_fl_exact)

lemma loop_body_fl_exact: "loop_body_fl (\<lambda>x. x) R g = loop_body R g"
  unfolding loop_body_fl_def loop_body_def degradation_fl_exact data_row_fl_exact
  by (rule refl)

lemma gen_loop_fl_exact: "gen_loop_fl (\<lambda>x. x) R k data g = gen_loop R k data g"
  by (induction k arbitrary: data g) (simp_all add: loop_body_fl_exact)

lemma generate_fl_exact:
  "generate_realistic_battery_data_fl (\<lambda>x. x) R n g = generate_realistic_battery_data R n g"
  by (simp add: generate_realistic_battery_data_fl_def generate_realistic_battery_data_def
      gen_loop_fl_exact)

lemma health_formula_fl_exact: "health_formula_fl (\<lambda>x. x) = health_formula"
  by (simp add: health_formula_fl_def subtract_in_order_def health_formula_def fun_eq_iff)

lemma degradation_fl_in_order:
  "degradation_fl rnd age cycles fcr temp dod mil u z
     = health_formula_fl rnd age cycles fcr temp dod mil u z"
  by (simp add: degradation_fl_def health_formula_fl_def subtract_in_order_def Let_def)

text \<open>One iteration in terms of its draws.\<close>

lemma loop_body_fl_draws:
  "loop_body_fl rnd R g =
     (let d = fst (row_draws rnd R g);
          mil = rnd (rnd (d_age d * d_annual d) + d_mileage_noise d);
          cycles = py_int (rnd (rnd (mil / 300) + d_cycles_noise d))
      in (data_row_fl rnd (d_model d) (d_age d) mil cycles (d_fast_charge d)
            (d_temperature d) (d_discharge d)
            (rnd (rnd (400 - rnd (d_age d * rnd 1.5)) + d_voltage_noise d))
            (rnd (rnd (rnd 2.0 + rnd (d_age d * rnd 0.8)) + d_resistance_noise d))
            (max (rnd 0.80) (min (rnd 0.98)
               (rnd (rnd (rnd 0.95 - rnd (d_age d * rnd 0.008)) + d_efficiency_noise d))))
            (d_capacity d)
            (max 40 (min 100
               (degradation_fl rnd (d_age d) cycles (d_fast_charge d) (d_temperature d)
                  (d_discharge d) mil (d_calendar_rate d) (d_noise d)))),
          snd (row_draws rnd R g)))"
proof -
  obtain age g1 where d1: "np_uniform R (rnd 0.1) 10 g = (age, g1)" by (metis surj_pair)
  obtain annual g2 where d2: "np_uniform R 8000 25000 g1 = (annual, g2)" by (metis surj_pair)
  obtain mn g3 where d3: "np_normal R 0 2000 g2 = (mn, g3)" by (metis surj_pair)
  obtain cn g4 where d4: "np_normal R 0 50 g3 = (cn, g4)" by (metis surj_pair)
  obtain fcr g5 where d5:
    "(if age < 3 then np_beta R 2 5 g4 else np_beta R (rnd 1.5) 4 g4) = (fcr, g5)"
    by (metis surj_pair)
  obtain temp g6 where d6: "np_uniform R 15 40 g5 = (temp, g6)" by (metis surj_pair)
  obtain dod g7 where d7: "np_uniform R (rnd 0.3) (rnd 0.9) g6 = (dod, g7)"
    by (metis surj_pair)
  obtain vn g8 where d8: "np_normal R 0 5 g7 = (vn, g8)" by (metis surj_pair)
  obtain rn g9 where d9: "np_uniform R 0 1 g8 = (rn, g9)" by (metis surj_pair)
  obtain en g10 where d10: "np_uniform R (- rnd 0.02) (rnd 0.01) g9 = (en, g10)"
    by (metis surj_pair)
  obtain mdl g11 where d11: "np_choice R ev_models g10 = (mdl, g11)" by (metis surj_pair)
  obtain cap :: int and g12 where d12:
    "(if str_contains ''Tesla'' mdl then np_choice R [50, 75, 100] g11
      else if str_contains ''Nissan Leaf'' mdl then np_choice R [40, 62] g11
      else if str_contains ''Rivian'' mdl then np_choice R [135, 180] g11
      else np_choice R [50, 60, 75, 82] g11) = (cap, g12)"
    by (metis surj_pair)
  obtain u g13 where d13: "np_uniform R 2 3 g12 = (u, g13)" by (metis surj_pair)
  obtain z g14 where d14: "np_normal R 0 2 g13 = (z, g14)" by (metis surj_pair)
  have D: "row_draws rnd R g =
      (\<lparr> d_age = age, d_annual = annual, d_mileage_noise = mn, d_cycles_noise = cn,
         d_fast_charge = fcr, d_temperature = temp, d_discharge = dod,
         d_voltage_noise = vn, d_resistance_noise = rn, d_efficiency_noise = en,
         d_model = mdl, d_capacity = cap, d_calendar_rate = u, d_noise = z \<rparr>, g14)"
    unfolding row_draws_def d1 prod.case Let_def d2 d3 d4 d5 d6 d7 d8 d9 d10 d11 d12 d13 d14
    by (rule refl)
  have L: "loop_body_fl rnd R g =
      (data_row_fl rnd mdl age (rnd (rnd (age * annual) + mn))
         (py_int (rnd (rnd (rnd (rnd (age * annual) + mn) / 300) + cn)))
         fcr temp dod
         (rnd (rnd (400 - rnd (age * rnd 1.5)) + vn))
         (rnd (rnd (rnd 2.0 + rnd (age * rnd 0.8)) + rn))
         (max (rnd 0.80) (min (rnd 0.98) (rnd (rnd (rnd 0.95 - rnd (age * rnd 0.008)) + en))))
         cap
         (max 40 (min 100
            (degradation_fl rnd age
               (py_int (rnd (rnd (rnd (rnd (age * annual) + mn) / 300) + cn)))
               fcr temp dod (rnd (rnd (age * annual) + mn)) u z))), g14)"
    unfolding loop_body_fl_def d1 prod.case Let_def d2 d3 d4 d5 d6 d7 d8 d9 d10 d11 d12 d13 d14
    by (rule refl)
  show ?thesis unfolding L D Let_def by simp
qed

lemma loop_body_fl_state: "snd (loop_body_fl rnd R g) = snd (row_draws rnd R g)"
  by (simp add: loop_body_fl_draws Let_def)

lemma gen_loop_fl_rows:
  "fst (gen_loop_fl rnd R k data g)
     = data @ map (\<lambda>i. fst (loop_body_fl rnd R (((\<lambda>g. snd (row_draws rnd R g)) ^^ i) g))) [0..<k]"
proof -
  define nx where "nx = (\<lambda>g. snd (row_draws rnd R g))"
  have step: "fst (gen_loop_fl rnd R k data g)
     = data @ map (\<lambda>i. fst (loop_body_fl rnd R ((nx ^^ i) g))) [0..<k]" for k data g
  proof (induction k arbitrary: data g)
    case 0
    show ?case by simp
  next
    case (Suc k)
    have "map (\<lambda>i. fst (loop_body_fl rnd R ((nx ^^ i) g))) [0..<Suc k]
        = fst (loop_body_fl rnd R g)
          # map (\<lambda>i. fst (loop_body_fl rnd R ((nx ^^ Suc i) g))) [0..<k]"
      by (simp add: upt_conv_Cons map_Suc_upt [symmetric] del: upt_Suc funpow.simps)
    also have "map (\<lambda>i. fst (loop_body_fl rnd R ((nx ^^ Suc i) g))) [0..<k]
        = map (\<lambda>i. fst (loop_body_fl rnd R ((nx ^^ i) (nx g)))) [0..<k]"
      by (simp only: funpow_Suc_right o_apply)
    finally have m: "map (\<lambda>i. fst (loop_body_fl rnd R ((nx ^^ i) g))) [0..<Suc k]
        = fst (loop_body_fl rnd R g)
          # map (\<lambda>i. fst (loop_body_fl rnd R ((nx ^^ i) (nx g)))) [0..<k]" .
    have s: "snd (loop_body_fl rnd R g) = nx g"
      by (simp add: nx_def loop_body_fl_state)
    show ?case
      unfolding m by (simp add: split_def Let_def Suc.IH s)
  qed
  show ?thesis using step [of k data g] by (simp add: nx_def)
qed

lemma generate_fl_length:
  "length (fst (generate_realistic_battery_data_fl rnd R n g)) = nat n"
  by (simp add: generate_realistic_battery_data_fl_def gen_loop_fl_rows)

lemma generate_fl_row:
  "i < nat n \<Longrightarrow>
     fst (generate_realistic_battery_data_fl rnd R n g) ! i
       = fst (loop_body_fl rnd R (state_before_row rnd R i))"
  by (simp add: generate_realistic_battery_data_fl_def gen_loop_fl_rows state_before_row_def)


lemma row_draws_first_three:
  "d_age (fst (row_draws rnd R g)) = fst (np_uniform R (rnd 0.1) 10 g)"
  "d_annual (fst (row_draws rnd R g))
     = fst (np_uniform R 8000 25000 (snd (np_uniform R (rnd 0.1) 10 g)))"
  "d_mileage_noise (fst (row_draws rnd R g))
     = fst (np_normal R 0 2000
         (snd (np_uniform R 8000 25000 (snd (np_uniform R (rnd 0.1) 10 g)))))"
  by (simp_all add: row_draws_def split_def Let_def)

text \<open>
  Where the two arithmetics part: for an age draw of 0.57 (the float nearest to it),
  10000 km a year and no noise, the float product is just below 5700 and the stored
  mileage is 5699; in exact arithmetic it would be 5700.
\<close>

lemma float_mileage_example:
  "py_int (binary64 (binary64 (binary64 0.57 * 10000) + 0)) = 5699
   \<and> py_int (0.57 * 10000 + 0) = 5700"
  by code_simp

section \<open>Determinism of the generator\<close>

text \<open>
  C1. The table depends on the number of samples alone: the function seeds the generator
  with the constant 42 before its first draw, so whatever state the process-wide
  generator is in at the call, the same \<open>n_samples\<close> gives the same rows (and leaves
  the same state). In particular a second call, made after a first one has advanced
  the generator, returns the table of the first.
\<close>

theorem generate_deterministic:
  "generate_realistic_battery_data R n g = generate_realistic_battery_data R n g'
   \<and> fst (generate_realistic_battery_data R n (snd (generate_realistic_battery_data R n g)))
       = fst (generate_realistic_battery_data R n g)"
  by (simp add: generate_realistic_battery_data_def)

section \<open>The degradation formula\<close>

text \<open>
  C2, as the code has it. The table has \<open>n_samples\<close> rows, and the
  \<open>battery_health_percent\<close> stored in row \<open>i\<close> is the clamp to [40, 100] of the
  specification's formula, rounded to two decimals (the claim leaves the rounding
  out). The formula is evaluated at the draws of iteration \<open>i\<close> themselves: at the
  age, fast-charge ratio, temperature and depth of discharge as drawn, at the mileage
  before truncation and the cycles computed from it, at the \<open>uniform(2, 3)\<close> draw and
  at the \<open>normal(0, 2)\<close> draw. The row stores the age, ratio, temperature and depth
  rounded to 2, 3, 1 and 3 decimals and the mileage truncated. This holds for every
  rounding of the float operations.
\<close>

theorem stored_health_is_rounded_clamped_formula:
  assumes "i < nat n"
  shows "length (fst (generate_realistic_battery_data_fl rnd R n g)) = nat n
    \<and> (let r = fst (generate_realistic_battery_data_fl rnd R n g) ! i;
            d = fst (row_draws rnd R (state_before_row rnd R i));
            mileage_raw = rnd (rnd (d_age d * d_annual d) + d_mileage_noise d);
            cycles = py_int (rnd (rnd (mileage_raw / 300) + d_cycles_noise d))
        in battery_health_percent r =
             py_round_fl rnd (max 40 (min 100
               (health_formula_fl rnd (d_age d) cycles (d_fast_charge d) (d_temperature d)
                  (d_discharge d) mileage_raw (d_calendar_rate d) (d_noise d)))) 2
           \<and> age_years r = py_round_fl rnd (d_age d) 2
           \<and> mileage r = py_int mileage_raw
           \<and> battery_cycles r = cycles
           \<and> fast_charge_ratio r = py_round_fl rnd (d_fast_charge d) 3
           \<and> avg_temperature_c r = py_round_fl rnd (d_temperature d) 1
           \<and> avg_depth_of_discharge r = py_round_fl rnd (d_discharge d) 3)"
  by (simp add: generate_fl_length generate_fl_row [OF assms] loop_body_fl_draws Let_def
      data_row_fl_def degradation_fl_in_order)

theorem stored_health_is_rounded_clamped_formula_witness:
  "(0::nat) < nat 1
    \<and> length (fst (generate_realistic_battery_data_fl binary64 (replay_source sample_tape) 1 []))
        = nat 1
    \<and> (let r = fst (generate_realistic_battery_data_fl binary64 (replay_source sample_tape) 1 []) ! 0;
            d = fst (row_draws binary64 (replay_source sample_tape)
                  (state_before_row binary64 (replay_source sample_tape) 0));
            mileage_raw = binary64 (binary64 (d_age d * d_annual d) + d_mileage_noise d);
            cycles = py_int (binary64 (binary64 (mileage_raw / 300) + d_cycles_noise d))
        in battery_health_percent r =
             py_round_fl binary64 (max 40 (min 100
               (health_formula_fl binary64 (d_age d) cycles (d_fast_charge d) (d_temperature d)
                  (d_discharge d) mileage_raw (d_calendar_rate d) (d_noise d)))) 2
           \<and> age_years r = py_round_fl binary64 (d_age d) 2
           \<and> mileage r = py_int mileage_raw
           \<and> battery_cycles r = cycles
           \<and> fast_charge_ratio r = py_round_fl binary64 (d_fast_charge d) 3
           \<and> avg_temperature_c r = py_round_fl binary64 (d_temperature d) 1
           \<and> avg_depth_of_discharge r = py_round_fl binary64 (d_discharge d) 3)"
proof -
  have h: "(0::nat) < nat 1" by simp
  from h stored_health_is_rounded_clamped_formula [OF h] show ?thesis by (rule conjI)
qed

text \<open>
  The claim as stated fails on the sample tape, already in exact arithmetic: the clamp of
  the formula is 84.53575
  (age 5.05, 277 cycles, ratio 0.25, 27.5 degrees, depth 0.6, 83325 km, calendar rate
  2.5, noise 0; none of these is changed by the rounding of the row), and the row
  stores 84.54.
\<close>

theorem health_not_the_clamp_counterexample:
  "fst (generate_realistic_battery_data (replay_source sample_tape) 1 []) = [sample_row]
   \<and> fst (np_uniform (replay_source sample_tape) 2 3 [1/2, 0]) = 5/2
   \<and> fst (np_normal (replay_source sample_tape) 0 2 [0]) = 0
   \<and> max 40 (min 100
       (health_formula (age_years sample_row) (battery_cycles sample_row)
          (fast_charge_ratio sample_row) (avg_temperature_c sample_row)
          (avg_depth_of_discharge sample_row) (real_of_int (mileage sample_row)) (5/2) 0))
       = 84.53575
   \<and> battery_health_percent sample_row = 84.54
   \<and> battery_health_percent sample_row \<noteq>
       max 40 (min 100
         (health_formula (age_years sample_row) (battery_cycles sample_row)
            (fast_charge_ratio sample_row) (avg_temperature_c sample_row)
            (avg_depth_of_discharge sample_row) (real_of_int (mileage sample_row)) (5/2) 0))"
  by code_simp

section \<open>Bounded fields\<close>



section \<open>Mileage\<close>

text \<open>
  C4, as the code has it. The mileage stored in row \<open>i\<close> is the truncation toward
  zero of \<open>age_years * annual_mileage + normal(0, 2000)\<close>, computed in floats from the
  first three draws of iteration \<open>i\<close>; the code applies no clamp to it. So the mileage
  is non-negative exactly in the rows where that sum is above -1.
\<close>

theorem stored_mileage_truncated_not_clamped:
  assumes "i < nat n"
  shows "length (fst (generate_realistic_battery_data_fl rnd R n g)) = nat n
    \<and> (let r = fst (generate_realistic_battery_data_fl rnd R n g) ! i;
            (age, g1) = np_uniform R (rnd 0.1) 10 (state_before_row rnd R i);
            (annual, g2) = np_uniform R 8000 25000 g1;
            (noise, g3) = np_normal R 0 2000 g2;
            raw = rnd (rnd (age * annual) + noise)
        in age_years r = py_round_fl rnd age 2
           \<and> mileage r = py_int raw
           \<and> (0 \<le> mileage r) = (- 1 < raw))"
  by (simp add: generate_fl_length generate_fl_row [OF assms] loop_body_fl_draws Let_def
      data_row_fl_def row_draws_first_three split_def py_int_nonneg_iff)

theorem stored_mileage_truncated_not_clamped_witness:
  "(0::nat) < nat 1
    \<and> length (fst (generate_realistic_battery_data_fl binary64 (replay_source [0, 0, - 1]) 1 []))
        = nat 1
    \<and> (let r = fst (generate_realistic_battery_data_fl binary64 (replay_source [0, 0, - 1]) 1 []) ! 0;
            (age, g1) = np_uniform (replay_source [0, 0, - 1]) (binary64 0.1) 10
                          (state_before_row binary64 (replay_source [0, 0, - 1]) 0);
            (annual, g2) = np_uniform (replay_source [0, 0, - 1]) 8000 25000 g1;
            (noise, g3) = np_normal (replay_source [0, 0, - 1]) 0 2000 g2;
            raw = binary64 (binary64 (age * annual) + noise)
        in age_years r = py_round_fl binary64 age 2
           \<and> mileage r = py_int raw
           \<and> (0 \<le> mileage r) = (- 1 < raw))"
proof -
  have h: "(0::nat) < nat 1" by simp
  from h stored_mileage_truncated_not_clamped [OF h] show ?thesis by (rule conjI)
qed

text \<open>
  The claim as stated fails where the noise outweighs a short history: with the age at
  0.1 years, 8000 km a year and a noise draw one standard deviation below the mean,
  the sum is 800 - 2000 and the row's mileage is -1200.
\<close>

theorem mileage_negative_counterexample:
  "length (fst (generate_realistic_battery_data (replay_source [0, 0, - 1]) 1 [])) = 1
   \<and> mileage (hd (fst (generate_realistic_battery_data (replay_source [0, 0, - 1]) 1 []))) = - 1200
   \<and> \<not> 0 \<le> mileage (hd (fst (generate_realistic_battery_data (replay_source [0, 0, - 1]) 1 [])))"
  by code_simp

section \<open>Battery capacity\<close>

text \<open>
  C5. With \<open>choice\<close> returning an element of its list, the model of every row is one
  of the eleven catalogue names, and the row's capacity is one of the candidates the
  lookup (Tesla, then Nissan Leaf, then Rivian, then the default) gives for that name.
\<close>

theorem capacity_from_candidates:
  assumes "choice_contract R"
    and "r \<in> set (fst (generate_realistic_battery_data R n g))"
  shows "model r \<in> set ev_models
       \<and> battery_capacity_kwh r \<in> set (capacity_candidates (model r))"
proof -
  from generate_rows [OF assms(2)] obtain g' where r: "r = fst (loop_body R g')" ..
  obtain age annual mn cn fcr temp dod vn rn en mdl and cap :: int and u z g10 g11 g12 g14
    where row: "loop_body R g' =
       (data_row mdl age (age * annual + mn) (py_int ((age * annual + mn) / 300 + cn))
          fcr temp dod (400 - age * 1.5 + vn) (2.0 + age * 0.8 + rn)
          (max 0.80 (min 0.98 (0.95 - age * 0.008 + en))) cap
          (max 40 (min 100
             (degradation age (py_int ((age * annual + mn) / 300 + cn)) fcr temp dod
                (age * annual + mn) u z))), g14)"
      and m: "np_choice R ev_models g10 = (mdl, g11)"
      and c: "(if str_contains ''Tesla'' mdl then np_choice R [50, 75, 100] g11
          else if str_contains ''Nissan Leaf'' mdl then np_choice R [40, 62] g11
          else if str_contains ''Rivian'' mdl then np_choice R [135, 180] g11
          else np_choice R [50, 60, 75, 82] g11) = (cap, g12)"
    by (rule loop_body_shape [of R g'])
  have f: "model r = mdl" "battery_capacity_kwh r = cap"
    by (simp_all add: r row data_row_def)
  have "ev_models \<noteq> []" by (simp add: ev_models_def)
  from choice_contractD [OF assms(1) this, of g10] m
  have m': "mdl \<in> set ev_models" by simp
  have pick: "fst (np_choice R xs g11) \<in> set xs" if "xs \<noteq> []" for xs :: "int list"
    using choice_contractD [OF assms(1) that] .
  have "cap \<in> set (capacity_candidates mdl)"
  proof (cases "str_contains ''Tesla'' mdl")
    case True
    with c pick [of "[50, 75, 100]"] show ?thesis
      by (simp add: capacity_candidates_def)
  next
    case t: False
    show ?thesis
    proof (cases "str_contains ''Nissan Leaf'' mdl")
      case True
      with t c pick [of "[40, 62]"] show ?thesis
        by (simp add: capacity_candidates_def)
    next
      case n: False
      show ?thesis
      proof (cases "str_contains ''Rivian'' mdl")
        case True
        with t n c pick [of "[135, 180]"] show ?thesis
          by (simp add: capacity_candidates_def)
      next
        case False
        with t n c pick [of "[50, 60, 75, 82]"] show ?thesis
          by (simp add: capacity_candidates_def)
      qed
    qed
  qed
  with m' show ?thesis by (simp add: f)
qed

theorem capacity_from_candidates_witness:
  "choice_contract (replay_source sample_tape)
   \<and> sample_row \<in> set (fst (generate_realistic_battery_data (replay_source sample_tape) 1 []))
   \<and> model sample_row \<in> set ev_models
   \<and> battery_capacity_kwh sample_row \<in> set (capacity_candidates (model sample_row))"
proof -
  have c: "choice_contract (replay_source sample_tape)" by (rule replay_choice_contract)
  have m: "sample_row \<in> set (fst (generate_realistic_battery_data (replay_source sample_tape) 1 []))"
    by (simp add: sample_generate)
  from c m capacity_from_candidates [OF c m] show ?thesis by blast
qed

section \<open>Monotonicity in the age\<close>

text \<open>
  C8. With every other input of the degradation block and both of its draws held fixed,
  the calendar rate being a draw of \<open>uniform(2, 3)\<close> and so not negative, a larger
  \<open>age_years\<close> gives a health value that is no larger, before the clamp and also
  after the clamp and the rounding of the stored field.
\<close>

theorem degradation_antimono_age:
  assumes "0 \<le> u" and "a1 \<le> a2"
  shows "degradation a2 cycles fcr temp dod mil u z \<le> degradation a1 cycles fcr temp dod mil u z
       \<and> py_round (max 40 (min 100 (degradation a2 cycles fcr temp dod mil u z))) 2
           \<le> py_round (max 40 (min 100 (degradation a1 cycles fcr temp dod mil u z))) 2"
proof -
  define K where "K = of_int cycles * (if dod < 0.5 then 0.01 else 0.015) * dod
      + fcr * of_int cycles * 0.005
      + (if mil > 100000 then (mil - 100000) / 10000 * 0.5 else 0) - z"
  define T where "T = (if 35 < temp then (temp - 35) * 0.3
      else if temp < 10 then (10 - temp) * 0.15 else 0)"
  have T0: "0 \<le> T" by (simp add: T_def)
  have eq: "degradation a cycles fcr temp dod mil u z = 100 - a * u - K - T * a" for a
    by (simp add: degradation_closed_form health_formula_def K_def T_def)
  have cal: "a1 * u \<le> a2 * u" using assms by (simp add: mult_right_mono)
  have thermal: "T * a1 \<le> T * a2" using T0 assms(2) by (simp add: mult_left_mono)
  have le: "degradation a2 cycles fcr temp dod mil u z \<le> degradation a1 cycles fcr temp dod mil u z"
    unfolding eq using cal thermal by linarith
  then have "max 40 (min 100 (degradation a2 cycles fcr temp dod mil u z))
      \<le> max 40 (min 100 (degradation a1 cycles fcr temp dod mil u z))"
    by (intro max.mono min.mono order_refl)
  then have "py_round (max 40 (min 100 (degradation a2 cycles fcr temp dod mil u z))) 2
           \<le> py_round (max 40 (min 100 (degradation a1 cycles fcr temp dod mil u z))) 2"
    by (rule py_round_mono)
  with le show ?thesis ..
qed

theorem degradation_antimono_age_witness:
  "(0::real) \<le> 5/2 \<and> (2::real) \<le> 5
   \<and> degradation 5 1500 0.6 40 0.9 100000 (5/2) 0 \<le> degradation 2 1500 0.6 40 0.9 100000 (5/2) 0
   \<and> py_round (max 40 (min 100 (degradation 5 1500 0.6 40 0.9 100000 (5/2) 0))) 2
       \<le> py_round (max 40 (min 100 (degradation 2 1500 0.6 40 0.9 100000 (5/2) 0))) 2"
proof -
  have u: "(0::real) \<le> 5/2" and a: "(2::real) \<le> 5" by simp_all
  from u a degradation_antimono_age [OF u a, of 1500 "0.6" 40 "0.9" 100000 0]
  show ?thesis by blast
qed

section \<open>Frames and encoders\<close>

lemma get_column_set_column:
  "get_column (set_column df name col) c = (if c = name then Inr col else get_column df c)"
  by (simp add: get_column_def set_column_def update_conv')

lemma set_column_new:
  "name \<notin> fst ` set df \<Longrightarrow> set_column df name col = df @ [(name, col)]"
  unfolding set_column_def by (induction df) auto

lemma index_of_member: "x \<in> set xs \<Longrightarrow> \<exists>i. index_of xs x = Some i"
  by (induction xs) auto

lemma le_transform_total:
  "label_strings col = Inr ss \<Longrightarrow> set ss \<subseteq> set classes \<Longrightarrow>
     \<exists>enc. le_transform classes col = Inr enc \<and> length enc = length col"
proof (induction col arbitrary: ss)
  case Nil
  then show ?case by simp
next
  case (Cons v vs)
  from Cons.prems(1) obtain s ss' where v: "v = Str s" and t: "label_strings vs = Inr ss'"
    and ss: "ss = s # ss'"
    by (cases v) (auto split: sum.splits)
  from Cons.prems(2) ss have "s \<in> set classes" and "set ss' \<subseteq> set classes" by simp_all
  from index_of_member [OF this(1)] obtain i where i: "index_of classes s = Some i" ..
  from Cons.IH [OF t \<open>set ss' \<subseteq> set classes\<close>]
  obtain enc where "le_transform classes vs = Inr enc" and "length enc = length vs" by blast
  with v i show ?case by (simp add: le_transform_label_def)
qed

lemma le_fit_transform_total:
  assumes "label_strings col = Inr ss"
  shows "\<exists>enc. le_fit_transform col = Inr (sort (remdups ss), enc) \<and> length enc = length col"
proof -
  have "set ss \<subseteq> set (sort (remdups ss))" by simp
  from le_transform_total [OF assms this]
  obtain enc where "le_transform (sort (remdups ss)) col = Inr enc" and "length enc = length col"
    by blast
  with assms show ?thesis by (simp add: le_fit_transform_def)
qed

section \<open>Unknown categories at prediction time\<close>

lemma get_column_one_row_frame:
  "get_column (one_row_frame d) k =
     (case map_of d k of None \<Rightarrow> Inl KeyError | Some v \<Rightarrow> Inr [v])"
  by (induction d) (auto simp: get_column_def one_row_frame_def)

lemma get_column_delete:
  "get_column (AList.delete name df) c = (if c = name then Inl KeyError else get_column df c)"
  by (simp add: get_column_def delete_conv')

lemma drop_column_present:
  "get_column df name = Inr col \<Longrightarrow> drop_column df name = Inr (AList.delete name df)"
  by (auto simp: drop_column_def get_column_def split: option.splits dest!: map_of_SomeD
      intro: image_eqI [where x = "(name, col)"])

text \<open>
  C6, as the code has it. A model name or repair type whose encoding fails is given
  the code 0, that of the first class, and the prediction is made and returned. The
  repair-cost predictor prints a warning for each value it replaces; the battery-health
  predictor replaces the model name without printing anything. The theorem gives both
  results in full, for numeric inputs and the feature lists the models were fitted on:
  a name seen in fitting gets its own code and no warning, a name not seen gets 0.
\<close>

theorem unknown_category_defaults:
  assumes "map_of encoders ''model'' = Some cm"
    and "map_of encoders ''repair_type'' = Some cr"
    and "feature_names_in M = repair_feature_cols @ [''model_encoded'', ''repair_type_encoded'']"
    and "feature_names_in B = battery_feature_cols @ [''model_encoded'']"
    and "map_of input_data ''model'' = Some (Str s)"
    and "map_of input_data ''age_years'' = Some (Num x1)"
    and "map_of input_data ''mileage'' = Some (Num x2)"
    and "map_of input_data ''battery_cycles'' = Some (Num x3)"
    and "map_of input_data ''fast_charge_ratio'' = Some (Num x4)"
    and "map_of input_data ''avg_temperature_c'' = Some (Num x5)"
    and "map_of input_data ''avg_depth_of_discharge'' = Some (Num x6)"
    and "map_of input_data ''voltage'' = Some (Num x7)"
    and "map_of input_data ''internal_resistance_mohm'' = Some (Num x8)"
    and "map_of input_data ''charging_efficiency'' = Some (Num x9)"
    and "map_of input_data ''battery_capacity_kwh'' = Some (Num x10)"
  shows "predict_repair_cost M encoders
           (repair_feature_cols @ [''model_encoded'', ''repair_type_encoded''])
           (Num a) (Num km) (Num h) (Num cap) (Str name) (Str t)
         = (Inr (max 0 (predict_row M
                [a, km, h, cap,
                 (case index_of cm name of None \<Rightarrow> 0 | Some i \<Rightarrow> real i),
                 (case index_of cr t of None \<Rightarrow> 0 | Some k \<Rightarrow> real k)])),
            (if index_of cm name = None then [UnknownModel (Str name)] else [])
            @ (if index_of cr t = None then [UnknownRepairType (Str t)] else []))
       \<and> predict_battery_health B le_model (battery_feature_cols @ [''model_encoded''])
           input_data
         = (Inr (max 0 (min 100 (predict_row B
                [x1, x2, x3, x4, x5, x6, x7, x8, x9, x10,
                 (case index_of le_model s of None \<Rightarrow> 0 | Some i \<Rightarrow> real i)]))), [])"
proof -
  have r: "predict_repair_cost M encoders
           (repair_feature_cols @ [''model_encoded'', ''repair_type_encoded''])
           (Num a) (Num km) (Num h) (Num cap) (Str name) (Str t)
         = (Inr (max 0 (predict_row M
                [a, km, h, cap,
                 (case index_of cm name of None \<Rightarrow> 0 | Some i \<Rightarrow> real i),
                 (case index_of cr t of None \<Rightarrow> 0 | Some k \<Rightarrow> real k)])),
            (if index_of cm name = None then [UnknownModel (Str name)] else [])
            @ (if index_of cr t = None then [UnknownRepairType (Str t)] else []))"
    by (cases "index_of cm name"; cases "index_of cr t")
      (simp_all add: predict_repair_cost_def encode_or_default_def assms(1,2,3)
        le_transform_label_def first_element_def one_row_frame_def set_column_def
        repair_feature_cols_def get_column_def model_predict_def frame_rows_def to_float_def)
  have m: "get_column (one_row_frame input_data) ''model'' = Inr [Str s]"
    by (simp add: get_column_one_row_frame assms(5))
  have d: "drop_column (set_column (one_row_frame input_data) ''model_encoded'' codes) ''model''
      = Inr (AList.delete ''model'' (set_column (one_row_frame input_data) ''model_encoded'' codes))"
    for codes
    by (rule drop_column_present [of _ _ "[Str s]"]) (simp add: get_column_set_column m)
  have b: "predict_battery_health B le_model (battery_feature_cols @ [''model_encoded''])
           input_data
         = (Inr (max 0 (min 100 (predict_row B
                [x1, x2, x3, x4, x5, x6, x7, x8, x9, x10,
                 (case index_of le_model s of None \<Rightarrow> 0 | Some i \<Rightarrow> real i)]))), [])"
    by (cases "index_of le_model s")
      (simp_all add: predict_battery_health_def m d assms(4-15) le_transform_label_def
        first_element_def get_column_delete get_column_set_column get_column_one_row_frame
        battery_feature_cols_def model_predict_def frame_rows_def to_float_def)
  from r b show ?thesis ..
qed

theorem unknown_category_defaults_witness:
  "map_of repair_encoders ''model'' = Some [''BYD Atto 3'', ''Nissan Leaf'', ''Tesla Model 3'']
   \<and> map_of repair_encoders ''repair_type''
        = Some [''Battery Replacement'', ''Charging Port Repair'', ''Motor Repair'']
   \<and> index_of [''BYD Atto 3'', ''Nissan Leaf'', ''Tesla Model 3''] ''Lucid Air'' = None
   \<and> index_of [''Battery Replacement'', ''Charging Port Repair'', ''Motor Repair'']
        ''Motor Repair'' = Some 2
   \<and> predict_repair_cost
        (sum_model (repair_feature_cols @ [''model_encoded'', ''repair_type_encoded'']))
        repair_encoders (repair_feature_cols @ [''model_encoded'', ''repair_type_encoded''])
        (Num 4) (Num 55000) (Num 78) (Num 75) (Str ''Lucid Air'') (Str ''Motor Repair'')
      = (Inr 55159, [UnknownModel (Str ''Lucid Air'')])
   \<and> map_of test_2 ''model'' = Some (Str ''Lucid Air'')
   \<and> index_of [''Nissan Leaf'', ''Tesla Model 3''] ''Lucid Air'' = None
   \<and> predict_battery_health (sum_model (battery_feature_cols @ [''model_encoded'']))
        [''Nissan Leaf'', ''Tesla Model 3''] (battery_feature_cols @ [''model_encoded'']) test_2
      = (Inr 100, [])"
proof -
  have e1: "map_of repair_encoders ''model'' = Some [''BYD Atto 3'', ''Nissan Leaf'', ''Tesla Model 3'']"
    and e2: "map_of repair_encoders ''repair_type''
        = Some [''Battery Replacement'', ''Charging Port Repair'', ''Motor Repair'']"
    by (simp_all add: repair_encoders_def)
  have f1: "feature_names_in
        (sum_model (repair_feature_cols @ [''model_encoded'', ''repair_type_encoded'']))
      = repair_feature_cols @ [''model_encoded'', ''repair_type_encoded'']"
    and f2: "feature_names_in (sum_model (battery_feature_cols @ [''model_encoded'']))
      = battery_feature_cols @ [''model_encoded'']"
    by (simp_all add: sum_model_def)
  have i1: "index_of [''BYD Atto 3'', ''Nissan Leaf'', ''Tesla Model 3''] ''Lucid Air'' = None"
    and i2: "index_of [''Battery Replacement'', ''Charging Port Repair'', ''Motor Repair'']
        ''Motor Repair'' = Some 2"
    and i3: "index_of [''Nissan Leaf'', ''Tesla Model 3''] ''Lucid Air'' = None"
    by simp_all
  have t: "map_of test_2 ''model'' = Some (Str ''Lucid Air'')"
    "map_of test_2 ''age_years'' = Some (Num 0.5)"
    "map_of test_2 ''mileage'' = Some (Num 5000)"
    "map_of test_2 ''battery_cycles'' = Some (Num 50)"
    "map_of test_2 ''fast_charge_ratio'' = Some (Num 0.1)"
    "map_of test_2 ''avg_temperature_c'' = Some (Num 20)"
    "map_of test_2 ''avg_depth_of_discharge'' = Some (Num 0.5)"
    "map_of test_2 ''voltage'' = Some (Num 395)"
    "map_of test_2 ''internal_resistance_mohm'' = Some (Num 2.0)"
    "map_of test_2 ''charging_efficiency'' = Some (Num 0.95)"
    "map_of test_2 ''battery_capacity_kwh'' = Some (Num 75)"
    by (simp_all add: test_2_def)
  from unknown_category_defaults [OF e1 e2 f1 f2 t, of 4 55000 78 75 "''Lucid Air''"
      "''Motor Repair''" "[''Nissan Leaf'', ''Tesla Model 3'']"]
  show ?thesis
    unfolding i1 i2 i3 using e1 e2 i1 i2 i3 t(1) by (simp add: sum_model_def)
qed

text \<open>
  The claim as stated fails for the battery-health predictor: given the script's second
  test case with a model name that the encoder has not seen, it returns a prediction
  and prints nothing.
\<close>

theorem battery_predictor_silent_counterexample:
  "index_of [''Nissan Leaf'', ''Tesla Model 3''] ''Lucid Air'' = None
   \<and> map_of test_2 ''model'' = Some (Str ''Lucid Air'')
   \<and> predict_battery_health (sum_model (battery_feature_cols @ [''model_encoded'']))
        [''Nissan Leaf'', ''Tesla Model 3''] (battery_feature_cols @ [''model_encoded'']) test_2
      = (Inr 100, [])"
  by code_simp

section \<open>Clamped predictions\<close>



section \<open>The frame effect of preparing the features\<close>

text \<open>
  C9. When the frame passed in has a \<open>model\<close> column of names,
  \<open>prepare_battery_health_data\<close> leaves the caller's frame with a
  \<open>model_encoded\<close> column holding one code per row, also when the call goes on to
  raise for a missing feature column. Every other column is as it was; a frame that had
  no \<open>model_encoded\<close> column is the old frame with the new column appended, and
  a column that already had that name is the one column the call replaces.
\<close>

theorem prepare_adds_model_encoded:
  assumes "get_column df ''model'' = Inr col"
    and "label_strings col = Inr names"
  shows "\<exists>enc. le_fit_transform col = Inr (sort (remdups names), enc)
       \<and> length enc = length col
       \<and> get_column (snd (prepare_battery_health_data df)) ''model_encoded'' = Inr enc
       \<and> (\<forall>c. c \<noteq> ''model_encoded'' \<longrightarrow>
             get_column (snd (prepare_battery_health_data df)) c = get_column df c)
       \<and> (''model_encoded'' \<notin> fst ` set df \<longrightarrow>
             snd (prepare_battery_health_data df) = df @ [(''model_encoded'', enc)])"
proof -
  from le_fit_transform_total [OF assms(2)]
  obtain enc where f: "le_fit_transform col = Inr (sort (remdups names), enc)"
    and l: "length enc = length col" by blast
  have s: "snd (prepare_battery_health_data df) = set_column df ''model_encoded'' enc"
    by (simp add: prepare_battery_health_data_def assms(1) f Let_def split: sum.splits)
  show ?thesis
    using f l by (auto simp: s get_column_set_column set_column_new)
qed

theorem prepare_adds_model_encoded_witness:
  "get_column (frame_of_rows [sample_row]) ''model'' = Inr [Str ''Tesla Model 3'']
   \<and> label_strings [Str ''Tesla Model 3''] = Inr [''Tesla Model 3'']
   \<and> (\<exists>enc. le_fit_transform [Str ''Tesla Model 3'']
                = Inr (sort (remdups [''Tesla Model 3'']), enc)
       \<and> length enc = length [Str ''Tesla Model 3'']
       \<and> get_column (snd (prepare_battery_health_data (frame_of_rows [sample_row])))
            ''model_encoded'' = Inr enc
       \<and> (\<forall>c. c \<noteq> ''model_encoded'' \<longrightarrow>
             get_column (snd (prepare_battery_health_data (frame_of_rows [sample_row]))) c
               = get_column (frame_of_rows [sample_row]) c)
       \<and> (''model_encoded'' \<notin> fst ` set (frame_of_rows [sample_row]) \<longrightarrow>
             snd (prepare_battery_health_data (frame_of_rows [sample_row]))
               = frame_of_rows [sample_row] @ [(''model_encoded'', enc)]))"
proof -
  have c: "get_column (frame_of_rows [sample_row]) ''model'' = Inr [Str ''Tesla Model 3'']"
    by (simp add: frame_of_rows_def get_column_def sample_row_def)
  have n: "label_strings [Str ''Tesla Model 3''] = Inr [''Tesla Model 3'']" by simp
  from c n prepare_adds_model_encoded [OF c n] show ?thesis by blast
qed

section \<open>Training reads the repair records only\<close>

text \<open>
  C10. Two tables with the same repair records, that is the same rows with
  \<open>needs_repair == True\<close> in the same order, train the same model: the simplified
  trainer returns the same model, encoders and feature list for both (or raises the
  same error), and so does the trainer that exports the model. The regressor and the
  train/test split enter as functions of their arguments, as they are for a fixed
  \<open>random_state\<close>.
\<close>

theorem training_depends_on_repair_records:
  assumes "repair_records df1 = repair_records df2"
  shows "train_simplified_repair_model sk df1 = train_simplified_repair_model sk df2
       \<and> prepare_simplified_repair_data df1 = prepare_simplified_repair_data df2
       \<and> train_and_convert sk df1 = train_and_convert sk df2"
  by (simp add: train_simplified_repair_model_def prepare_simplified_repair_data_def
      train_and_convert_def assms)

theorem training_depends_on_repair_records_witness:
  "repair_records repairs_a = repair_records repairs_b
   \<and> repairs_a \<noteq> repairs_b
   \<and> train_simplified_repair_model mean_sklearn repairs_a
       = train_simplified_repair_model mean_sklearn repairs_b
   \<and> prepare_simplified_repair_data repairs_a = prepare_simplified_repair_data repairs_b
   \<and> train_and_convert mean_sklearn repairs_a = train_and_convert mean_sklearn repairs_b"
proof -
  have h: "repair_records repairs_a = repair_records repairs_b" by code_simp
  have d: "repairs_a \<noteq> repairs_b" by code_simp
  from h d training_depends_on_repair_records [OF h, of mean_sklearn] show ?thesis by blast
qed

end
